theory Spec2Isabelle
  imports Complex_Main "HOL-Library.Sublist"
begin

section \<open>llm9p: sessions of a language-model backend served as a file tree\<close>

text \<open>
  The development embeds the session store (\<^verbatim>\<open>internal/llm/session.go\<close>) and the
  synthetic files built on it (\<^verbatim>\<open>internal/llmfs\<close>) and proves properties of the
  sequential behaviour of that code.

  Conventions of the embedding.
  \<^item> A Go \<^verbatim>\<open>string\<close> or \<^verbatim>\<open>[]byte\<close> is a \<^typ>\<open>string\<close>, one \<^typ>\<open>char\<close> per byte.
  \<^item> A Go \<^verbatim>\<open>int\<close> is an \<^typ>\<open>int\<close>, of 64 bits where its range matters.  The sum
    of \<^verbatim>\<open>AddTokens\<close> wraps around as Go's addition does, since the backend
    chooses what is added, and \<^verbatim>\<open>strconv.Atoi\<close> checks the range.  The session
    counter starts at 0 and grows by one per \<^verbatim>\<open>Create\<close>: it would wrap around
    after \<open>2^63\<close> sessions only, which is not modelled.
  \<^item> The registry \<^verbatim>\<open>map[int]*Session\<close> is a map from ids to session values.
    A method called on the pointer returned by \<^verbatim>\<open>Get\<close> is an update of the
    registry at that id.  No file node keeps a session pointer between two
    operations (a node holds the id and asks \<^verbatim>\<open>Get\<close> each time), so in
    sequential execution the two views agree.
  \<^item> Locks are not modelled: every function below is one atomic step.
  \<^item> A destination buffer \<^verbatim>\<open>p\<close> of a \<^verbatim>\<open>Read\<close> is its capacity \<^verbatim>\<open>len(p)\<close>; the
    result of a read is the bytes copied into it.
\<close>

subsection \<open>Errors\<close>

datatype num_error = ErrSyntax | ErrRange

datatype error =
    ErrNotFound                          \<comment> \<open>\<^verbatim>\<open>protocol.ErrNotFound\<close>\<close>
  | ErrPermission                        \<comment> \<open>\<^verbatim>\<open>protocol.ErrPermission\<close>\<close>
  | EOF                                  \<comment> \<open>\<^verbatim>\<open>io.EOF\<close>\<close>
  | ErrSessionNotFound                   \<comment> \<open>\<^verbatim>\<open>"session not found"\<close>\<close>
  | ErrSessionClosed                     \<comment> \<open>\<^verbatim>\<open>"session closed"\<close>\<close>
  | BackendError string                  \<comment> \<open>the error of the backend, with its \<^verbatim>\<open>Error()\<close> text\<close>
  | InvalidTemperature num_error         \<comment> \<open>\<^verbatim>\<open>"invalid temperature: " + err.Error()\<close>\<close>
  | TemperatureOutOfRange                \<comment> \<open>\<^verbatim>\<open>"temperature must be between 0.0 and 2.0"\<close>\<close>
  | InvalidThinkingBudget num_error      \<comment> \<open>\<^verbatim>\<open>"invalid thinking budget: " + err.Error()\<close>\<close>
  | UnknownCommand string                \<comment> \<open>\<^verbatim>\<open>"unknown command: " + cmd\<close>\<close>
  | MarshalError                         \<comment> \<open>an error of \<^verbatim>\<open>json.MarshalIndent\<close>\<close>
  | SliceOutOfRange                      \<comment> \<open>the run-time panic of \<^verbatim>\<open>content[offset:]\<close>\<close>

subsection \<open>float64\<close>

text \<open>
  A \<^verbatim>\<open>float64\<close> is a finite value, the negative zero, an infinity or the
  not-a-number.  The comparisons are those of IEEE 754: every comparison with
  the not-a-number is false.  A finite value is named by a rational number; which
  rationals a \<^verbatim>\<open>float64\<close> can hold, and the rounding to them, is left to the
  parameters that stand for \<^verbatim>\<open>strconv.ParseFloat\<close> on numerals and for the verb
  \<^verbatim>\<open>%.2f\<close>.
\<close>

datatype float64 = Finite rat | NegZero | PosInf | NegInf | NaN

fun float_lt :: "float64 \<Rightarrow> float64 \<Rightarrow> bool" where
  "float_lt NaN _ = False"
| "float_lt _ NaN = False"
| "float_lt PosInf _ = False"
| "float_lt _ NegInf = False"
| "float_lt NegInf _ = True"
| "float_lt _ PosInf = True"
| "float_lt NegZero NegZero = False"
| "float_lt NegZero (Finite b) = (0 < b)"
| "float_lt (Finite a) NegZero = (a < 0)"
| "float_lt (Finite a) (Finite b) = (a < b)"

definition float_gt :: "float64 \<Rightarrow> float64 \<Rightarrow> bool" where
  "float_gt a b = float_lt b a"

subsection \<open>Session (\<^verbatim>\<open>internal/llm/session.go\<close>)\<close>

record Message =
  Role :: string
  Content :: string

record SessionDefaults =
  Model :: string
  Temperature :: float64
  SystemPrompt :: string
  ThinkingTokens :: int
  Prefill :: string

definition DefaultSessionDefaults :: SessionDefaults where
  "DefaultSessionDefaults =
     \<lparr>Model = ''claude-sonnet-4-20250514'', Temperature = Finite (7 / 10),
      SystemPrompt = '''', ThinkingTokens = 0, Prefill = ''''\<rparr>"

record Session =
  ID :: int
  messages :: "Message list"
  lastResponse :: string
  lastTokens :: int
  totalTokens :: int
  model :: string
  temperature :: float64
  systemPrompt :: string
  thinkingTokens :: int
  prefill :: string
  closed_flag :: bool   \<comment> \<open>the field \<^verbatim>\<open>closed\<close>\<close>

definition NewSession :: "int \<Rightarrow> SessionDefaults \<Rightarrow> Session" where
  "NewSession id' defaults' =
     \<lparr>ID = id', messages = [], lastResponse = '''', lastTokens = 0, totalTokens = 0,
      model = Model defaults', temperature = Temperature defaults',
      systemPrompt = SystemPrompt defaults', thinkingTokens = ThinkingTokens defaults',
      prefill = Prefill defaults', closed_flag = False\<rparr>"

definition AddMessage :: "string \<Rightarrow> string \<Rightarrow> Session \<Rightarrow> Session" where
  "AddMessage role content s = s\<lparr>messages := messages s @ [\<lparr>Role = role, Content = content\<rparr>]\<rparr>"

definition SetLastResponse :: "string \<Rightarrow> Session \<Rightarrow> Session" where
  "SetLastResponse response s = s\<lparr>lastResponse := response\<rparr>"

text \<open>The addition of two \<^verbatim>\<open>int\<close> of 64 bits: the sum modulo \<open>2^64\<close>, read as signed.\<close>

definition wrap64 :: "int \<Rightarrow> int" where
  "wrap64 x = (x + 2 ^ 63) mod 2 ^ 64 - 2 ^ 63"

definition AddTokens :: "int \<Rightarrow> Session \<Rightarrow> Session" where
  "AddTokens tokens s =
     s\<lparr>lastTokens := tokens, totalTokens := wrap64 (totalTokens s + tokens)\<rparr>"

definition Session_Reset :: "Session \<Rightarrow> Session" where
  "Session_Reset s = s\<lparr>messages := [], lastResponse := '''', lastTokens := 0, totalTokens := 0\<rparr>"

definition SetModel :: "string \<Rightarrow> Session \<Rightarrow> Session" where
  "SetModel m s = s\<lparr>model := m\<rparr>"

definition SetTemperature :: "float64 \<Rightarrow> Session \<Rightarrow> Session" where
  "SetTemperature temp s = s\<lparr>temperature := temp\<rparr>"

definition SetSystemPrompt :: "string \<Rightarrow> Session \<Rightarrow> Session" where
  "SetSystemPrompt prompt s = s\<lparr>systemPrompt := prompt\<rparr>"

definition SetThinkingTokens :: "int \<Rightarrow> Session \<Rightarrow> Session" where
  "SetThinkingTokens tokens s = s\<lparr>thinkingTokens := tokens\<rparr>"

definition SetPrefill :: "string \<Rightarrow> Session \<Rightarrow> Session" where
  "SetPrefill pf s = s\<lparr>prefill := pf\<rparr>"

definition IsClosed :: "Session \<Rightarrow> bool" where
  "IsClosed s = closed_flag s"

subsection \<open>SessionManager\<close>

record AskRequest =
  rq_Messages :: "Message list"
  rq_Prompt :: string
  rq_Model :: string
  rq_Temperature :: float64
  rq_SystemPrompt :: string
  rq_ThinkingTokens :: int
  rq_Prefill :: string

text \<open>
  The backend is outside the repository.  One call \<^verbatim>\<open>AskWithRequest(ctx, req)\<close> is a
  function of the request: \<open>Inr (response, tokens)\<close>, or \<open>Inl text\<close> for an error
  whose \<^verbatim>\<open>Error()\<close> is \<open>text\<close>.  Every operation that may call the backend takes
  the backend of that call as an argument, so nothing is assumed of two calls.
\<close>

type_synonym Backend = "AskRequest \<Rightarrow> string + string \<times> int"

record SessionManager =
  sessions :: "int \<rightharpoonup> Session"
  nextID :: int
  defaults :: SessionDefaults

definition NewSessionManager :: SessionManager where
  "NewSessionManager = \<lparr>sessions = Map.empty, nextID = 0, defaults = DefaultSessionDefaults\<rparr>"

definition SetDefaults :: "SessionDefaults \<Rightarrow> SessionManager \<Rightarrow> SessionManager" where
  "SetDefaults d sm = sm\<lparr>defaults := d\<rparr>"

definition Create :: "SessionManager \<Rightarrow> int \<times> SessionManager" where
  "Create sm =
     (let id' = nextID sm;
          sm1 = sm\<lparr>nextID := nextID sm + 1\<rparr>;
          sm2 = sm1\<lparr>sessions := (sessions sm1)(id' \<mapsto> NewSession id' (defaults sm1))\<rparr>
      in (id', sm2))"

definition Get :: "SessionManager \<Rightarrow> int \<Rightarrow> Session option" where
  "Get sm id' = sessions sm id'"

text \<open>A method called through the pointer that \<^verbatim>\<open>Get\<close> returned for \<open>id'\<close>.\<close>

definition on_session :: "int \<Rightarrow> (Session \<Rightarrow> Session) \<Rightarrow> SessionManager \<Rightarrow> SessionManager" where
  "on_session id' f sm =
     (case sessions sm id' of None \<Rightarrow> sm
      | Some s \<Rightarrow> sm\<lparr>sessions := (sessions sm)(id' \<mapsto> f s)\<rparr>)"

definition Close :: "SessionManager \<Rightarrow> int \<Rightarrow> SessionManager" where
  "Close sm id' =
     (case sessions sm id' of
        None \<Rightarrow> sm
      | Some session \<Rightarrow>
          (let sm1 = sm\<lparr>sessions := (sessions sm)(id' \<mapsto> session\<lparr>closed_flag := True\<rparr>)\<rparr>
           in sm1\<lparr>sessions := (sessions sm1)(id' := None)\<rparr>))"

definition Reset :: "SessionManager \<Rightarrow> int \<Rightarrow> SessionManager" where
  "Reset sm id' =
     (case Get sm id' of None \<Rightarrow> sm | Some session \<Rightarrow> on_session id' Session_Reset sm)"

text \<open>The request that \<^verbatim>\<open>Ask\<close> builds from its snapshot of the session.\<close>

definition BuildRequest :: "Session \<Rightarrow> string \<Rightarrow> AskRequest" where
  "BuildRequest session prompt =
     \<lparr>rq_Messages = messages session, rq_Prompt = prompt,
      rq_Model = model session, rq_Temperature = temperature session,
      rq_SystemPrompt = systemPrompt session,
      rq_ThinkingTokens = thinkingTokens session,
      rq_Prefill = prefill session\<rparr>"

definition Ask :: "Backend \<Rightarrow> SessionManager \<Rightarrow> int \<Rightarrow> string \<Rightarrow> (error + string) \<times> SessionManager" where
  "Ask apiClient sm id' prompt =
     (case Get sm id' of
        None \<Rightarrow> (Inl ErrSessionNotFound, sm)
      | Some session \<Rightarrow>
          if IsClosed session then (Inl ErrSessionClosed, sm)
          else
            (case apiClient (BuildRequest session prompt) of
               Inl err \<Rightarrow>
                 (Inl (BackendError err),
                  on_session id' (SetLastResponse (''Error: '' @ err)) sm)
             | Inr (response, tokens) \<Rightarrow>
                 (let sm1 = on_session id' (AddMessage ''user'' prompt) sm;
                      sm2 = on_session id' (AddMessage ''assistant'' response) sm1;
                      sm3 = on_session id' (AddTokens tokens) sm2;
                      sm4 = on_session id' (SetLastResponse response) sm3
                  in (Inr response, sm4))))"

definition ListSessions :: "SessionManager \<Rightarrow> int set" where
  "ListSessions sm = dom (sessions sm)"

subsection \<open>Library functions of Go used by the files\<close>

text \<open>
  \<^verbatim>\<open>strings.TrimSpace\<close> removes, at both ends, the runes for which
  \<^verbatim>\<open>unicode.IsSpace\<close> holds: six ASCII bytes, and the runes U+0085, U+00A0,
  U+1680, U+2000 to U+200A, U+2028, U+2029, U+202F, U+205F and U+3000, here in
  their UTF-8 encoding.  A byte that starts no such encoding stops the trimming.
\<close>

abbreviation NL :: char where
  "NL \<equiv> CHR 0x0A"

definition asciiSpace :: "char \<Rightarrow> bool" where
  "asciiSpace c = (c = CHR 0x09 \<or> c = NL \<or> c = CHR 0x0B \<or> c = CHR 0x0C \<or> c = CHR 0x0D \<or> c = CHR 0x20)"

definition unicodeSpaces :: "string list" where
  "unicodeSpaces =
     [[CHR 0xC2, CHR 0x85], [CHR 0xC2, CHR 0xA0], [CHR 0xE1, CHR 0x9A, CHR 0x80],
      [CHR 0xE2, CHR 0x80, CHR 0x80], [CHR 0xE2, CHR 0x80, CHR 0x81],
      [CHR 0xE2, CHR 0x80, CHR 0x82], [CHR 0xE2, CHR 0x80, CHR 0x83],
      [CHR 0xE2, CHR 0x80, CHR 0x84], [CHR 0xE2, CHR 0x80, CHR 0x85],
      [CHR 0xE2, CHR 0x80, CHR 0x86], [CHR 0xE2, CHR 0x80, CHR 0x87],
      [CHR 0xE2, CHR 0x80, CHR 0x88], [CHR 0xE2, CHR 0x80, CHR 0x89],
      [CHR 0xE2, CHR 0x80, CHR 0x8A], [CHR 0xE2, CHR 0x80, CHR 0xA8],
      [CHR 0xE2, CHR 0x80, CHR 0xA9], [CHR 0xE2, CHR 0x80, CHR 0xAF],
      [CHR 0xE2, CHR 0x81, CHR 0x9F], [CHR 0xE3, CHR 0x80, CHR 0x80]]"

text \<open>The number of bytes of the space rune that \<open>s\<close> starts with, 0 if there is none.\<close>

definition spaceLen :: "string list \<Rightarrow> string \<Rightarrow> nat" where
  "spaceLen encodings s =
     (case s of
        [] \<Rightarrow> 0
      | c # _ \<Rightarrow>
          if asciiSpace c then 1
          else (case find (\<lambda>e. prefix e s) encodings of Some e \<Rightarrow> length e | None \<Rightarrow> 0))"

function trimFront :: "string list \<Rightarrow> string \<Rightarrow> string" where
  "trimFront encodings [] = []"
| "trimFront encodings (c # cs) =
     (let n = spaceLen encodings (c # cs)
      in if n = 0 then c # cs else trimFront encodings (drop n (c # cs)))"
  by pat_completeness auto
termination
  by (relation "measure (\<lambda>(e, s). length s)") auto

definition TrimSpace :: "string \<Rightarrow> string" where
  "TrimSpace s = rev (trimFront (map rev unicodeSpaces) (rev (trimFront unicodeSpaces s)))"

definition HasSuffix :: "string \<Rightarrow> string \<Rightarrow> bool" where
  "HasSuffix s suf = suffix suf s"

definition TrimSuffix :: "string \<Rightarrow> string \<Rightarrow> string" where
  "TrimSuffix s suf = (if HasSuffix s suf then take (length s - length suf) s else s)"

text \<open>
  Decimal digits, \<^verbatim>\<open>strconv.Itoa\<close> (also the verb \<^verbatim>\<open>%d\<close>) and \<^verbatim>\<open>strconv.Atoi\<close>.
  \<open>digit_char\<close> is applied to numbers below 10 only.
\<close>

definition digit_char :: "nat \<Rightarrow> char" where
  "digit_char d = ''0123456789'' ! d"

text \<open>The value of a digit byte: \<^verbatim>\<open>ch - '0'\<close>, when that is at most 9.\<close>

definition digit_of :: "char \<Rightarrow> nat option" where
  "digit_of c =
     (let k = (of_char c :: nat) in if 48 \<le> k \<and> k \<le> 57 then Some (k - 48) else None)"

fun FormatUint :: "nat \<Rightarrow> string" where
  "FormatUint n = (if n < 10 then [digit_char n] else FormatUint (n div 10) @ [digit_char (n mod 10)])"

declare FormatUint.simps [simp del]

definition Itoa :: "int \<Rightarrow> string" where
  "Itoa i = (if i < 0 then CHR ''-'' # FormatUint (nat (- i)) else FormatUint (nat i))"

text \<open>
  \<^verbatim>\<open>strconv.ParseUint(s, 10, 64)\<close>: a byte that is no digit is a syntax error, a
  value beyond \<open>2^64 - 1\<close> a range error, whichever the scan from the left meets
  first.
\<close>

fun ParseUint_from :: "nat \<Rightarrow> string \<Rightarrow> num_error + nat" where
  "ParseUint_from n [] = Inr n"
| "ParseUint_from n (c # cs) =
     (case digit_of c of
        None \<Rightarrow> Inl ErrSyntax
      | Some d \<Rightarrow>
          if (2 ^ 64 - 1) div 10 + 1 \<le> n then Inl ErrRange
          else if 2 ^ 64 - 1 < n * 10 + d then Inl ErrRange
          else ParseUint_from (n * 10 + d) cs)"

definition ParseUint :: "string \<Rightarrow> num_error + nat" where
  "ParseUint s = (if s = [] then Inl ErrSyntax else ParseUint_from 0 s)"

text \<open>
  \<^verbatim>\<open>strconv.Atoi(s)\<close> with a 64-bit \<^verbatim>\<open>int\<close>, that is \<^verbatim>\<open>ParseInt(s, 10, 0)\<close>: an optional
  sign, decimal digits, the value in \<open>[-2^63, 2^63 - 1]\<close>.  (The fast path of
  \<^verbatim>\<open>Atoi\<close> for short strings computes the same result.)
\<close>

definition Atoi :: "string \<Rightarrow> num_error + int" where
  "Atoi s =
     (case s of
        [] \<Rightarrow> Inl ErrSyntax
      | c # cs \<Rightarrow>
          (let neg = (c = CHR ''-'');
               s1 = (if c = CHR ''+'' \<or> c = CHR ''-'' then cs else s)
           in case ParseUint s1 of
                Inl e \<Rightarrow> Inl e
              | Inr un \<Rightarrow>
                  if \<not> neg \<and> 2 ^ 63 \<le> un then Inl ErrRange
                  else if neg \<and> 2 ^ 63 < un then Inl ErrRange
                  else Inr (if neg then - int un else int un)))"

subsection \<open>The ask file (\<^verbatim>\<open>SessionAskFile\<close>)\<close>

text \<open>
  Every \<^verbatim>\<open>Read\<close> ends the same way: end of data when the offset is at or past the
  end of the content, otherwise \<^verbatim>\<open>copy(p, content[offset:])\<close>.  The offset is an
  \<^verbatim>\<open>int64\<close>; slicing at a negative one panics.
\<close>

definition copy_from :: "string \<Rightarrow> nat \<Rightarrow> int \<Rightarrow> error + string" where
  "copy_from content cap offset =
     (if int (length content) \<le> offset then Inl EOF
      else if offset < 0 then Inl SliceOutOfRange
      else Inr (take cap (drop (nat offset) content)))"

text \<open>The content that \<^verbatim>\<open>SessionAskFile.Read\<close> computes before it looks at the offset.\<close>

definition SessionAskFile_content :: "Session \<Rightarrow> string" where
  "SessionAskFile_content session =
     (let content = lastResponse session
      in if content \<noteq> [] \<and> \<not> HasSuffix content [NL] then content @ [NL] else content)"

definition SessionAskFile_Read :: "SessionManager \<Rightarrow> int \<Rightarrow> nat \<Rightarrow> int \<Rightarrow> error + string" where
  "SessionAskFile_Read sm id' cap offset =
     (case Get sm id' of
        None \<Rightarrow> Inl ErrNotFound
      | Some session \<Rightarrow> copy_from (SessionAskFile_content session) cap offset)"

text \<open>
  A \<^verbatim>\<open>Write\<close> returns the number of bytes taken or an error, and the store after it.
  No \<^verbatim>\<open>Write\<close> of the tree looks at its offset, which the model leaves out.
\<close>

definition SessionAskFile_Write ::
  "Backend \<Rightarrow> SessionManager \<Rightarrow> int \<Rightarrow> string \<Rightarrow> (error + nat) \<times> SessionManager" where
  "SessionAskFile_Write apiClient sm id' p =
     (let prompt = TrimSpace p
      in if prompt = [] then (Inr (length p), sm)
         else (case Ask apiClient sm id' prompt of
                 (Inl err, sm') \<Rightarrow> (Inr (length p), sm')
               | (Inr response, sm') \<Rightarrow> (Inr (length p), sm')))"

text \<open>
  \<^verbatim>\<open>Stat\<close> is modelled by the \<^verbatim>\<open>Length\<close> it reports; \<open>base\<close> is the \<^verbatim>\<open>Length\<close> of
  \<^verbatim>\<open>BaseFile.Stat()\<close>, of the package \<^verbatim>\<open>protocol\<close>.
\<close>

definition SessionAskFile_Stat :: "nat \<Rightarrow> SessionManager \<Rightarrow> int \<Rightarrow> nat" where
  "SessionAskFile_Stat base sm id' =
     (case Get sm id' of None \<Rightarrow> base | Some session \<Rightarrow> length (lastResponse session))"

subsection \<open>The context file (\<^verbatim>\<open>SessionContextFile\<close>)\<close>

text \<open>
  \<^verbatim>\<open>MessagesJSON\<close> is \<^verbatim>\<open>json.MarshalIndent\<close> of the history: the parameter
  \<open>marshal\<close>, \<open>None\<close> when it returns an error.
\<close>

definition SessionContextFile_Read ::
  "(Message list \<Rightarrow> string option) \<Rightarrow> SessionManager \<Rightarrow> int \<Rightarrow> nat \<Rightarrow> int \<Rightarrow> error + string" where
  "SessionContextFile_Read marshal sm id' cap offset =
     (case Get sm id' of
        None \<Rightarrow> Inl ErrNotFound
      | Some session \<Rightarrow>
          (case marshal (messages session) of
             None \<Rightarrow> Inl MarshalError
           | Some content \<Rightarrow> copy_from (content @ [NL]) cap offset))"

definition SessionContextFile_Stat ::
  "nat \<Rightarrow> (Message list \<Rightarrow> string option) \<Rightarrow> SessionManager \<Rightarrow> int \<Rightarrow> nat" where
  "SessionContextFile_Stat base marshal sm id' =
     (case Get sm id' of
        None \<Rightarrow> base
      | Some session \<Rightarrow>
          (case marshal (messages session) of
             None \<Rightarrow> base
           | Some content \<Rightarrow> length content + 1))"

subsection \<open>The control file (\<^verbatim>\<open>SessionCtlFile\<close>)\<close>

definition SessionCtlFile_Read :: "SessionManager \<Rightarrow> int \<Rightarrow> nat \<Rightarrow> int \<Rightarrow> error + string" where
  "SessionCtlFile_Read sm id' cap offset = Inl EOF"

definition SessionCtlFile_Write :: "SessionManager \<Rightarrow> int \<Rightarrow> string \<Rightarrow> (error + nat) \<times> SessionManager" where
  "SessionCtlFile_Write sm id' p =
     (let cmd = TrimSpace p
      in if cmd = ''reset'' then (Inr (length p), Reset sm id')
         else if cmd = ''close'' then (Inr (length p), Close sm id')
         else (Inl (UnknownCommand cmd), sm))"

definition SessionCtlFile_Stat :: "nat \<Rightarrow> SessionManager \<Rightarrow> int \<Rightarrow> nat" where
  "SessionCtlFile_Stat base sm id' = base"

subsection \<open>The settings files (\<^verbatim>\<open>session_settings.go\<close>)\<close>

definition SessionModelFile_content :: "Session \<Rightarrow> string" where
  "SessionModelFile_content session = model session @ [NL]"

definition SessionModelFile_Read :: "SessionManager \<Rightarrow> int \<Rightarrow> nat \<Rightarrow> int \<Rightarrow> error + string" where
  "SessionModelFile_Read sm id' cap offset =
     (case Get sm id' of
        None \<Rightarrow> Inl ErrNotFound
      | Some session \<Rightarrow> copy_from (SessionModelFile_content session) cap offset)"

definition SessionModelFile_Write :: "SessionManager \<Rightarrow> int \<Rightarrow> string \<Rightarrow> (error + nat) \<times> SessionManager" where
  "SessionModelFile_Write sm id' p =
     (case Get sm id' of
        None \<Rightarrow> (Inl ErrNotFound, sm)
      | Some session \<Rightarrow>
          (let m = TrimSpace p
           in if m \<noteq> [] then (Inr (length p), on_session id' (SetModel m) sm)
              else (Inr (length p), sm)))"

definition SessionModelFile_Stat :: "nat \<Rightarrow> SessionManager \<Rightarrow> int \<Rightarrow> nat" where
  "SessionModelFile_Stat base sm id' =
     (case Get sm id' of None \<Rightarrow> base | Some session \<Rightarrow> length (model session) + 1)"

text \<open>
  \<^verbatim>\<open>strconv.ParseFloat(s, 64)\<close> first tries the special values: \<^verbatim>\<open>special\<close>
  recognises, whatever the case of the letters, an optionally signed \<^verbatim>\<open>inf\<close> or
  \<^verbatim>\<open>infinity\<close> and an unsigned \<^verbatim>\<open>nan\<close>, and returns the value with the number of
  bytes it used.  The conversion of a decimal or hexadecimal numeral to the
  nearest \<^verbatim>\<open>float64\<close> is the parameter \<open>readNumber\<close>.
\<close>

definition lower :: "char \<Rightarrow> nat" where
  "lower c =
     (if (65::nat) \<le> of_char c \<and> of_char c \<le> (90::nat) then of_char c + 32 else of_char c)"

fun commonPrefixLenIgnoreCase :: "string \<Rightarrow> string \<Rightarrow> nat" where
  "commonPrefixLenIgnoreCase (c # cs) (q # qs) =
     (if lower c = of_char q then Suc (commonPrefixLenIgnoreCase cs qs) else 0)"
| "commonPrefixLenIgnoreCase _ _ = 0"

definition special_inf :: "bool \<Rightarrow> nat \<Rightarrow> string \<Rightarrow> (float64 \<times> nat) option" where
  "special_inf neg nsign s =
     (let n0 = commonPrefixLenIgnoreCase s ''infinity'';
          n = (if 3 < n0 \<and> n0 < 8 then 3 else n0)
      in if n = 3 \<or> n = 8 then Some (if neg then NegInf else PosInf, nsign + n) else None)"

definition special :: "string \<Rightarrow> (float64 \<times> nat) option" where
  "special s =
     (case s of
        [] \<Rightarrow> None
      | c # cs \<Rightarrow>
          if c = CHR ''+'' \<or> c = CHR ''-'' then special_inf (c = CHR ''-'') 1 cs
          else if c = CHR ''i'' \<or> c = CHR ''I'' then special_inf False 0 s
          else if c = CHR ''n'' \<or> c = CHR ''N'' then
            (if commonPrefixLenIgnoreCase s ''nan'' = 3 then Some (NaN, 3) else None)
          else None)"

definition ParseFloat :: "(string \<Rightarrow> num_error + float64) \<Rightarrow> string \<Rightarrow> num_error + float64" where
  "ParseFloat readNumber s =
     (case special s of
        Some (val, n) \<Rightarrow> if n \<noteq> length s then Inl ErrSyntax else Inr val
      | None \<Rightarrow> readNumber s)"

text \<open>The rendering of \<^verbatim>\<open>%.2f\<close> is the parameter \<open>fmt2f\<close>.\<close>

definition SessionTemperatureFile_content :: "(float64 \<Rightarrow> string) \<Rightarrow> Session \<Rightarrow> string" where
  "SessionTemperatureFile_content fmt2f session = fmt2f (temperature session) @ [NL]"

definition SessionTemperatureFile_Read ::
  "(float64 \<Rightarrow> string) \<Rightarrow> SessionManager \<Rightarrow> int \<Rightarrow> nat \<Rightarrow> int \<Rightarrow> error + string" where
  "SessionTemperatureFile_Read fmt2f sm id' cap offset =
     (case Get sm id' of
        None \<Rightarrow> Inl ErrNotFound
      | Some session \<Rightarrow> copy_from (SessionTemperatureFile_content fmt2f session) cap offset)"

definition SessionTemperatureFile_Write ::
  "(string \<Rightarrow> num_error + float64) \<Rightarrow> SessionManager \<Rightarrow> int \<Rightarrow> string \<Rightarrow> (error + nat) \<times> SessionManager" where
  "SessionTemperatureFile_Write readNumber sm id' p =
     (case Get sm id' of
        None \<Rightarrow> (Inl ErrNotFound, sm)
      | Some session \<Rightarrow>
          (case ParseFloat readNumber (TrimSpace p) of
             Inl err \<Rightarrow> (Inl (InvalidTemperature err), sm)
           | Inr temp \<Rightarrow>
               if float_lt temp (Finite 0) \<or> float_gt temp (Finite 2)
               then (Inl TemperatureOutOfRange, sm)
               else (Inr (length p), on_session id' (SetTemperature temp) sm)))"

definition SessionTemperatureFile_Stat ::
  "nat \<Rightarrow> (float64 \<Rightarrow> string) \<Rightarrow> SessionManager \<Rightarrow> int \<Rightarrow> nat" where
  "SessionTemperatureFile_Stat base fmt2f sm id' =
     (case Get sm id' of
        None \<Rightarrow> base
      | Some session \<Rightarrow> length (fmt2f (temperature session) @ [NL]))"

definition SessionSystemFile_content :: "Session \<Rightarrow> string" where
  "SessionSystemFile_content session =
     (let content = systemPrompt session
      in if content \<noteq> [] \<and> \<not> HasSuffix content [NL] then content @ [NL] else content)"

definition SessionSystemFile_Read :: "SessionManager \<Rightarrow> int \<Rightarrow> nat \<Rightarrow> int \<Rightarrow> error + string" where
  "SessionSystemFile_Read sm id' cap offset =
     (case Get sm id' of
        None \<Rightarrow> Inl ErrNotFound
      | Some session \<Rightarrow> copy_from (SessionSystemFile_content session) cap offset)"

definition SessionSystemFile_Write :: "SessionManager \<Rightarrow> int \<Rightarrow> string \<Rightarrow> (error + nat) \<times> SessionManager" where
  "SessionSystemFile_Write sm id' p =
     (case Get sm id' of
        None \<Rightarrow> (Inl ErrNotFound, sm)
      | Some session \<Rightarrow> (Inr (length p), on_session id' (SetSystemPrompt (TrimSpace p)) sm))"

definition SessionSystemFile_Stat :: "nat \<Rightarrow> SessionManager \<Rightarrow> int \<Rightarrow> nat" where
  "SessionSystemFile_Stat base sm id' =
     (case Get sm id' of
        None \<Rightarrow> base
      | Some session \<Rightarrow>
          (let content = systemPrompt session
           in if content \<noteq> [] then length content + 1 else base))"

definition SessionThinkingFile_content :: "Session \<Rightarrow> string" where
  "SessionThinkingFile_content session =
     (let tokens = thinkingTokens session
      in if tokens < 0 then ''max'' @ [NL]
         else if tokens = 0 then ''disabled'' @ [NL]
         else Itoa tokens @ [NL])"

definition SessionThinkingFile_Read :: "SessionManager \<Rightarrow> int \<Rightarrow> nat \<Rightarrow> int \<Rightarrow> error + string" where
  "SessionThinkingFile_Read sm id' cap offset =
     (case Get sm id' of
        None \<Rightarrow> Inl ErrNotFound
      | Some session \<Rightarrow> copy_from (SessionThinkingFile_content session) cap offset)"

definition SessionThinkingFile_Write :: "SessionManager \<Rightarrow> int \<Rightarrow> string \<Rightarrow> (error + nat) \<times> SessionManager" where
  "SessionThinkingFile_Write sm id' p =
     (case Get sm id' of
        None \<Rightarrow> (Inl ErrNotFound, sm)
      | Some session \<Rightarrow>
          (let v = TrimSpace p
           in if v = ''max'' \<or> v = ''-1'' then
                (Inr (length p), on_session id' (SetThinkingTokens (- 1)) sm)
              else if v = ''disabled'' \<or> v = ''off'' \<or> v = ''0'' then
                (Inr (length p), on_session id' (SetThinkingTokens 0) sm)
              else (case Atoi v of
                      Inl err \<Rightarrow> (Inl (InvalidThinkingBudget err), sm)
                    | Inr tokens \<Rightarrow>
                        (Inr (length p), on_session id' (SetThinkingTokens tokens) sm))))"

definition SessionThinkingFile_Stat :: "nat \<Rightarrow> SessionManager \<Rightarrow> int \<Rightarrow> nat" where
  "SessionThinkingFile_Stat base sm id' = 16"

definition SessionPrefillFile_content :: "Session \<Rightarrow> string" where
  "SessionPrefillFile_content session =
     (let content = prefill session
      in if content \<noteq> [] \<and> \<not> HasSuffix content [NL] then content @ [NL] else content)"

definition SessionPrefillFile_Read :: "SessionManager \<Rightarrow> int \<Rightarrow> nat \<Rightarrow> int \<Rightarrow> error + string" where
  "SessionPrefillFile_Read sm id' cap offset =
     (case Get sm id' of
        None \<Rightarrow> Inl ErrNotFound
      | Some session \<Rightarrow> copy_from (SessionPrefillFile_content session) cap offset)"

definition SessionPrefillFile_Write :: "SessionManager \<Rightarrow> int \<Rightarrow> string \<Rightarrow> (error + nat) \<times> SessionManager" where
  "SessionPrefillFile_Write sm id' p =
     (case Get sm id' of
        None \<Rightarrow> (Inl ErrNotFound, sm)
      | Some session \<Rightarrow>
          (Inr (length p), on_session id' (SetPrefill (TrimSuffix p [NL])) sm))"

definition SessionPrefillFile_Stat :: "nat \<Rightarrow> SessionManager \<Rightarrow> int \<Rightarrow> nat" where
  "SessionPrefillFile_Stat base sm id' =
     (case Get sm id' of
        None \<Rightarrow> base
      | Some session \<Rightarrow>
          (let content = prefill session
           in if content \<noteq> [] then length content + 1 else base))"

subsection \<open>The clone file and the directories\<close>

text \<open>\<^verbatim>\<open>NewFile.Read\<close>: a read at an offset that is not positive creates a session.\<close>

definition NewFile_Read :: "SessionManager \<Rightarrow> nat \<Rightarrow> int \<Rightarrow> (error + string) \<times> SessionManager" where
  "NewFile_Read sm cap offset =
     (if 0 < offset then (Inl EOF, sm)
      else (let (id', sm') = Create sm
            in (Inr (take cap (Itoa id' @ [NL])), sm')))"

definition NewFile_Write :: "SessionManager \<Rightarrow> string \<Rightarrow> (error + nat) \<times> SessionManager" where
  "NewFile_Write sm p = (Inl ErrPermission, sm)"

definition NewFile_Stat :: "nat \<Rightarrow> nat" where
  "NewFile_Stat base = 0"

text \<open>
  A node of the tree holds no more than its kind and, below the root, the id of
  its session.  The name of a session directory is \<^verbatim>\<open>strconv.Itoa(id)\<close>.
\<close>

datatype node =
    NewFileNode
  | SessionDirNode int
  | SessionAskFileNode int
  | SessionContextFileNode int
  | SessionCtlFileNode int
  | SessionModelFileNode int
  | SessionTemperatureFileNode int
  | SessionSystemFileNode int
  | SessionThinkingFileNode int
  | SessionPrefillFileNode int

definition SessionDir_Name :: "int \<Rightarrow> string" where
  "SessionDir_Name id' = Itoa id'"

definition SessionDir_Children :: "SessionManager \<Rightarrow> int \<Rightarrow> node list" where
  "SessionDir_Children sm id' =
     (case Get sm id' of
        None \<Rightarrow> []
      | Some session \<Rightarrow>
          [SessionAskFileNode id', SessionContextFileNode id', SessionCtlFileNode id',
           SessionModelFileNode id', SessionTemperatureFileNode id',
           SessionSystemFileNode id', SessionThinkingFileNode id',
           SessionPrefillFileNode id'])"

definition SessionDir_Lookup :: "SessionManager \<Rightarrow> int \<Rightarrow> string \<Rightarrow> error + node" where
  "SessionDir_Lookup sm id' name =
     (case Get sm id' of
        None \<Rightarrow> Inl ErrNotFound
      | Some session \<Rightarrow>
          if name = ''ask'' then Inr (SessionAskFileNode id')
          else if name = ''context'' then Inr (SessionContextFileNode id')
          else if name = ''ctl'' then Inr (SessionCtlFileNode id')
          else if name = ''model'' then Inr (SessionModelFileNode id')
          else if name = ''temperature'' then Inr (SessionTemperatureFileNode id')
          else if name = ''system'' then Inr (SessionSystemFileNode id')
          else if name = ''thinking'' then Inr (SessionThinkingFileNode id')
          else if name = ''prefill'' then Inr (SessionPrefillFileNode id')
          else Inl ErrNotFound)"

text \<open>
  The root lists the clone file and one directory for each id of
  \<^verbatim>\<open>ListSessions\<close>, which ranges over a Go map in no fixed order: the listing is
  a set.
\<close>

definition SessionsDir_Children :: "SessionManager \<Rightarrow> node set" where
  "SessionsDir_Children sm = insert NewFileNode (SessionDirNode ` ListSessions sm)"

definition SessionsDir_Lookup :: "SessionManager \<Rightarrow> string \<Rightarrow> error + node" where
  "SessionsDir_Lookup sm name =
     (if name = ''new'' then Inr NewFileNode
      else (case Atoi name of
              Inl err \<Rightarrow> Inl ErrNotFound
            | Inr id' \<Rightarrow>
                (case Get sm id' of
                   None \<Rightarrow> Inl ErrNotFound
                 | Some session \<Rightarrow> Inr (SessionDirNode id'))))"

subsection \<open>Runs of the program\<close>

text \<open>
  The operations that change the store: the methods of \<^verbatim>\<open>SessionManager\<close>, and
  the reads and writes of the tree that reach them.  (Every other read and
  every \<^verbatim>\<open>Stat\<close> leaves the store as it is.)  \<open>exec\<close> returns the id that the
  operation obtained from \<^verbatim>\<open>Create\<close>, if it called it, and the store after it.
\<close>

datatype op =
    Op_SetDefaults SessionDefaults
  | Op_Create
  | Op_Close int
  | Op_Reset int
  | Op_Ask Backend int string
  | Op_NewFile_Read nat int
  | Op_Ask_Write Backend int string
  | Op_Ctl_Write int string
  | Op_Model_Write int string
  | Op_Temperature_Write int string
  | Op_System_Write int string
  | Op_Thinking_Write int string
  | Op_Prefill_Write int string

fun exec :: "(string \<Rightarrow> num_error + float64) \<Rightarrow> SessionManager \<Rightarrow> op \<Rightarrow> int option \<times> SessionManager" where
  "exec rn sm (Op_SetDefaults d) = (None, SetDefaults d sm)"
| "exec rn sm Op_Create = (Some (fst (Create sm)), snd (Create sm))"
| "exec rn sm (Op_Close id') = (None, Close sm id')"
| "exec rn sm (Op_Reset id') = (None, Reset sm id')"
| "exec rn sm (Op_Ask apiClient id' prompt) = (None, snd (Ask apiClient sm id' prompt))"
| "exec rn sm (Op_NewFile_Read cap offset) =
     (if 0 < offset then None else Some (fst (Create sm)), snd (NewFile_Read sm cap offset))"
| "exec rn sm (Op_Ask_Write apiClient id' p) = (None, snd (SessionAskFile_Write apiClient sm id' p))"
| "exec rn sm (Op_Ctl_Write id' p) = (None, snd (SessionCtlFile_Write sm id' p))"
| "exec rn sm (Op_Model_Write id' p) = (None, snd (SessionModelFile_Write sm id' p))"
| "exec rn sm (Op_Temperature_Write id' p) = (None, snd (SessionTemperatureFile_Write rn sm id' p))"
| "exec rn sm (Op_System_Write id' p) = (None, snd (SessionSystemFile_Write sm id' p))"
| "exec rn sm (Op_Thinking_Write id' p) = (None, snd (SessionThinkingFile_Write sm id' p))"
| "exec rn sm (Op_Prefill_Write id' p) = (None, snd (SessionPrefillFile_Write sm id' p))"

text \<open>A run returns the ids that \<^verbatim>\<open>Create\<close> issued, in the order of the calls.\<close>

fun run :: "(string \<Rightarrow> num_error + float64) \<Rightarrow> SessionManager \<Rightarrow> op list \<Rightarrow> int list \<times> SessionManager" where
  "run rn sm [] = ([], sm)"
| "run rn sm (x # xs) =
     (let (issued, sm1) = exec rn sm x;
          (ids, sm2) = run rn sm1 xs
      in ((case issued of None \<Rightarrow> [] | Some i \<Rightarrow> [i]) @ ids, sm2))"

text \<open>The stores that the program can be in: those a run from the new manager ends in.\<close>

inductive reachable :: "(string \<Rightarrow> num_error + float64) \<Rightarrow> SessionManager \<Rightarrow> bool"
  for rn :: "string \<Rightarrow> num_error + float64" where
  reachable_init: "reachable rn NewSessionManager"
| reachable_step: "reachable rn sm \<Longrightarrow> reachable rn (snd (exec rn sm x))"

text \<open>The operations that reset session \<open>id'\<close>.\<close>

fun resets :: "int \<Rightarrow> op \<Rightarrow> bool" where
  "resets id' (Op_Reset j) = (j = id')"
| "resets id' (Op_Ctl_Write j p) = (j = id' \<and> TrimSpace p = ''reset'')"
| "resets id' _ = False"

text \<open>
  The backend of an operation, if it has one, reports no negative token count,
  and none that takes the total \<open>t0\<close> beyond the largest \<^verbatim>\<open>int\<close>.
\<close>

definition tokens_fit :: "int \<Rightarrow> Backend \<Rightarrow> bool" where
  "tokens_fit t0 apiClient =
     (\<forall>req response tokens. apiClient req = Inr (response, tokens) \<longrightarrow>
        0 \<le> tokens \<and> t0 + tokens < 2 ^ 63)"

fun op_tokens_fit :: "int \<Rightarrow> op \<Rightarrow> bool" where
  "op_tokens_fit t0 (Op_Ask apiClient id' prompt) = tokens_fit t0 apiClient"
| "op_tokens_fit t0 (Op_Ask_Write apiClient id' p) = tokens_fit t0 apiClient"
| "op_tokens_fit t0 _ = True"

text \<open>Three invariants of the stores that the program reaches.\<close>

definition totals_in_range :: "SessionManager \<Rightarrow> bool" where
  "totals_in_range sm =
     (\<forall>i s. sessions sm i = Some s \<longrightarrow> - (2 ^ 63) \<le> totalTokens s \<and> totalTokens s < 2 ^ 63)"

definition registry_open :: "SessionManager \<Rightarrow> bool" where
  "registry_open sm = (\<forall>i s. sessions sm i = Some s \<longrightarrow> \<not> closed_flag s)"

definition ids_below_next :: "SessionManager \<Rightarrow> bool" where
  "ids_below_next sm = (\<forall>i s. sessions sm i = Some s \<longrightarrow> i < nextID sm)"

subsection \<open>Example stores and backends\<close>

text \<open>Concrete inputs, at which the theorems below are instantiated.\<close>

definition backend_down :: Backend where
  "backend_down req = Inl ''timeout''"

definition backend_ok :: Backend where
  "backend_ok req = Inr (''pong'', 5)"

definition sm_one :: SessionManager where
  "sm_one = snd (Create NewSessionManager)"

definition no_numbers :: "string \<Rightarrow> num_error + float64" where
  "no_numbers s = Inl ErrSyntax"

definition fmt_example :: "float64 \<Rightarrow> string" where
  "fmt_example t = ''0.70''"

definition marshal_example :: "Message list \<Rightarrow> string option" where
  "marshal_example ms = Some ''[]''"

definition sm_asked :: SessionManager where
  "sm_asked = snd (exec no_numbers sm_one (Op_Ask backend_ok 0 ''ping''))"

definition backend_negative :: Backend where
  "backend_negative req = Inr (''pong'', - 3)"

definition backend_huge :: Backend where
  "backend_huge req = Inr (''pong'', 9223372036854775807)"

definition sm_huge :: SessionManager where
  "sm_huge = snd (exec no_numbers sm_one (Op_Ask backend_huge 0 ''ping''))"

definition sm_set :: SessionManager where
  "sm_set =
     snd (SessionPrefillFile_Write (snd (SessionSystemFile_Write sm_one 0 ''Be brief'')) 0 ''Sure'')"

definition ops_example :: "op list" where
  "ops_example = [Op_Create, Op_Close 0, Op_NewFile_Read 16 0, Op_Create]"

section \<open>Properties\<close>

subsection \<open>Auxiliary facts\<close>

lemma on_session_Some:
  "sessions sm i = Some s \<Longrightarrow> on_session i f sm = sm\<lparr>sessions := (sessions sm)(i \<mapsto> f s)\<rparr>"
  by (simp add: on_session_def)

lemma sessions_sm_one: "sessions sm_one 0 = Some (NewSession 0 DefaultSessionDefaults)"
  by (simp add: sm_one_def Create_def NewSessionManager_def Let_def)

lemma NewSession_open: "\<not> closed_flag (NewSession i d)"
  by (simp add: NewSession_def)

lemma HasSuffix_NL: "HasSuffix s [NL] \<longleftrightarrow> s \<noteq> [] \<and> last s = NL"
  by (cases s rule: rev_cases) (auto simp: HasSuffix_def)

lemmas TrimSpace_defs = TrimSpace_def spaceLen_def asciiSpace_def unicodeSpaces_def

lemma wrap64_range: "- (2 ^ 63) \<le> wrap64 x \<and> wrap64 x < 2 ^ 63"
proof -
  have "0 \<le> (x + 2 ^ 63) mod (2 ^ 64 :: int)" "(x + 2 ^ 63) mod (2 ^ 64 :: int) < 2 ^ 64"
    by simp_all
  then show ?thesis by (simp add: wrap64_def)
qed

lemma wrap64_id: "- (2 ^ 63) \<le> x \<Longrightarrow> x < 2 ^ 63 \<Longrightarrow> wrap64 x = x"
  by (simp add: wrap64_def mod_pos_pos_trivial)

lemma Ask_unfold:
  "Ask apiClient sm i p =
     (case sessions sm i of
        None \<Rightarrow> (Inl ErrSessionNotFound, sm)
      | Some s \<Rightarrow>
          if closed_flag s then (Inl ErrSessionClosed, sm)
          else (case apiClient (BuildRequest s p) of
                  Inl err \<Rightarrow>
                    (Inl (BackendError err),
                     sm\<lparr>sessions := (sessions sm)(i \<mapsto> s\<lparr>lastResponse := ''Error: '' @ err\<rparr>)\<rparr>)
                | Inr (response, tokens) \<Rightarrow>
                    (Inr response,
                     sm\<lparr>sessions := (sessions sm)(i \<mapsto>
                        s\<lparr>messages := messages s @ [\<lparr>Role = ''user'', Content = p\<rparr>,
                                                       \<lparr>Role = ''assistant'', Content = response\<rparr>],
                          lastTokens := tokens,
                          totalTokens := wrap64 (totalTokens s + tokens),
                          lastResponse := response\<rparr>)\<rparr>)))"
  by (simp add: Ask_def Get_def IsClosed_def on_session_def Let_def
      SetLastResponse_def AddTokens_def AddMessage_def split: option.splits sum.splits)

lemmas session_ops =
  SetModel_def SetTemperature_def SetSystemPrompt_def SetThinkingTokens_def SetPrefill_def
  Session_Reset_def

lemmas store_ops = SetDefaults_def Create_def Close_def Reset_def Get_def on_session_def

lemmas file_writes =
  NewFile_Read_def SessionAskFile_Write_def SessionCtlFile_Write_def SessionModelFile_Write_def
  SessionTemperatureFile_Write_def SessionSystemFile_Write_def SessionThinkingFile_Write_def
  SessionPrefillFile_Write_def

lemma digit_cases: "d < 10 \<Longrightarrow> d \<in> {0, 1, 2, 3, 4, 5, 6, 7, 8, 9::nat}"
  by auto

lemma digit_of_digit_char: "d < 10 \<Longrightarrow> digit_of (digit_char d) = Some d"
  using digit_cases [of d] by (auto simp: digit_char_def digit_of_def)

lemma digit_char_no_sign: "d < 10 \<Longrightarrow> digit_char d \<noteq> CHR ''-'' \<and> digit_char d \<noteq> CHR ''+''"
  using digit_cases [of d] by (auto simp: digit_char_def)

lemma ParseUint_from_append:
  "ParseUint_from n (xs @ ys) =
     (case ParseUint_from n xs of Inl e \<Rightarrow> Inl e | Inr k \<Rightarrow> ParseUint_from k ys)"
  by (induction xs arbitrary: n) (simp_all split: option.splits)

lemma FormatUint_head: "\<exists>d cs. d < 10 \<and> FormatUint m = digit_char d # cs"
proof (induction m rule: FormatUint.induct)
  case (1 n)
  show ?case
  proof (cases "n < 10")
    case True
    then show ?thesis by (auto simp: FormatUint.simps [of n])
  next
    case False
    with 1 obtain d cs where "d < 10" "FormatUint (n div 10) = digit_char d # cs" by auto
    with False show ?thesis by (auto simp: FormatUint.simps [of n])
  qed
qed

lemma ParseUint_FormatUint:
  "ParseUint_from 0 (FormatUint m) = (if m < 2 ^ 64 then Inr m else Inl ErrRange)"
proof (induction m rule: FormatUint.induct)
  case (1 n)
  show ?case
  proof (cases "n < 10")
    case True
    then show ?thesis by (simp add: FormatUint.simps [of n] digit_of_digit_char)
  next
    case False
    then have ih: "ParseUint_from 0 (FormatUint (n div 10)) =
        (if n div 10 < 2 ^ 64 then Inr (n div 10) else Inl ErrRange)"
      using 1 by simp
    have d: "n mod 10 < 10" by simp
    have n: "n div 10 * 10 + n mod 10 = n" by simp
    show ?thesis
      using False
      by (simp add: FormatUint.simps [of n] ParseUint_from_append ih
          digit_of_digit_char [OF d] n) arith
  qed
qed

lemma ParseUint_FormatUint': "ParseUint (FormatUint m) = (if m < 2 ^ 64 then Inr m else Inl ErrRange)"
  using FormatUint_head [of m] by (auto simp: ParseUint_def ParseUint_FormatUint)

lemma Atoi_Itoa:
  "Atoi (Itoa i) = (if - (2 ^ 63) \<le> i \<and> i < 2 ^ 63 then Inr i else Inl ErrRange)"
proof (cases "i < 0")
  case True
  then show ?thesis
    by (simp add: Atoi_def Itoa_def ParseUint_FormatUint') arith
next
  case False
  obtain d cs where h: "d < 10" "FormatUint (nat i) = digit_char d # cs"
    using FormatUint_head [of "nat i"] by blast
  have p: "ParseUint (digit_char d # cs) = (if nat i < 2 ^ 64 then Inr (nat i) else Inl ErrRange)"
    using ParseUint_FormatUint' [of "nat i"] h by simp
  show ?thesis
    using False h digit_char_no_sign [OF h(1)]
    by (simp add: Atoi_def Itoa_def p) arith
qed

lemma copy_from_0: "copy_from content cap 0 = (if content = [] then Inl EOF else Inr (take cap content))"
  by (simp add: copy_from_def)

lemma Close_sessions: "sessions (Close sm i) = (sessions sm)(i := None)"
  by (auto simp: Close_def Let_def split: option.splits)

lemma ctl_close: "TrimSpace p = ''close'' \<Longrightarrow> SessionCtlFile_Write sm i p = (Inr (length p), Close sm i)"
  by (simp add: SessionCtlFile_Write_def)

lemma Itoa_not_new: "Itoa i \<noteq> ''new''"
proof (cases "i < 0")
  case True
  then show ?thesis by (simp add: Itoa_def)
next
  case False
  obtain d cs where h: "d < 10" "FormatUint (nat i) = digit_char d # cs"
    using FormatUint_head [of "nat i"] by blast
  have "digit_char d \<noteq> CHR ''n''"
    using digit_cases [OF h(1)] by (auto simp: digit_char_def)
  with False h show ?thesis by (simp add: Itoa_def)
qed

lemma gone_lookup_root:
  assumes "sessions sm i = None"
  shows "SessionsDir_Lookup sm (SessionDir_Name i) = Inl ErrNotFound"
  using assms by (simp add: SessionsDir_Lookup_def SessionDir_Name_def Atoi_Itoa Get_def Itoa_not_new)

lemma gone_lookup_root_any:
  assumes "sessions sm i = None" and "Atoi name = Inr i"
  shows "SessionsDir_Lookup sm name = Inl ErrNotFound"
proof -
  have "Atoi ''new'' = Inl ErrSyntax"
    by (simp add: Atoi_def ParseUint_def digit_of_def)
  with assms(2) have "name \<noteq> ''new''" by auto
  with assms show ?thesis by (simp add: SessionsDir_Lookup_def Get_def)
qed

lemma thinking_write_cases:
  assumes "sessions sm i = Some s"
  shows "SessionThinkingFile_Write sm i p =
     (let v = TrimSpace p
      in if v = ''max'' \<or> v = ''-1'' then
           (Inr (length p), sm\<lparr>sessions := (sessions sm)(i \<mapsto> s\<lparr>thinkingTokens := - 1\<rparr>)\<rparr>)
         else if v = ''disabled'' \<or> v = ''off'' \<or> v = ''0'' then
           (Inr (length p), sm\<lparr>sessions := (sessions sm)(i \<mapsto> s\<lparr>thinkingTokens := 0\<rparr>)\<rparr>)
         else (case Atoi v of
                 Inl err \<Rightarrow> (Inl (InvalidThinkingBudget err), sm)
               | Inr tokens \<Rightarrow>
                   (Inr (length p), sm\<lparr>sessions := (sessions sm)(i \<mapsto> s\<lparr>thinkingTokens := tokens\<rparr>)\<rparr>)))"
  using assms
  by (simp add: SessionThinkingFile_Write_def Get_def on_session_Some SetThinkingTokens_def
      Let_def split: sum.splits)

lemma thinking_read_at:
  "SessionThinkingFile_Read (sm\<lparr>sessions := (sessions sm)(i \<mapsto> s)\<rparr>) i cap 0 =
     Inr (take cap (SessionThinkingFile_content s))"
proof -
  have "SessionThinkingFile_content s \<noteq> []"
    by (simp add: SessionThinkingFile_content_def Let_def)
  then show ?thesis
    by (simp add: SessionThinkingFile_Read_def Get_def copy_from_0)
qed

lemma TrimSpace_words:
  "TrimSpace ''max'' = ''max''" "TrimSpace ''-1'' = ''-1''" "TrimSpace ''0'' = ''0''"
  "TrimSpace ''off'' = ''off''" "TrimSpace ''disabled'' = ''disabled''"
  "TrimSpace ''500'' = ''500''"
  by (simp_all add: TrimSpace_defs)

lemma TrimSuffix_NL: "TrimSuffix p [NL] = (if p \<noteq> [] \<and> last p = NL then butlast p else p)"
  by (cases p rule: rev_cases) (auto simp: TrimSuffix_def HasSuffix_def)


subsection \<open>A failing backend call\<close>

text \<open>
  Claim C1.  Let a session be registered and not closed, and let the prompt,
  the written bytes trimmed, be non-empty.  If the backend call of \<^verbatim>\<open>Ask\<close>
  fails, then \<^verbatim>\<open>Ask\<close> reports the failure, the write to the ask file still
  returns the number of bytes written, the store differs from the one before
  only in the \<^verbatim>\<open>lastResponse\<close> of that session, which is the failure text (so
  the history and both token counters are as before), and a following read of
  the ask file from offset 0 returns that text, newline-terminated.
\<close>

theorem ask_write_backend_failure:
  assumes "sessions sm id' = Some s" and "\<not> closed_flag s" and "TrimSpace p \<noteq> []"
    and "apiClient (BuildRequest s (TrimSpace p)) = Inl err"
  shows "SessionAskFile_Write apiClient sm id' p =
           (Inr (length p), sm\<lparr>sessions := (sessions sm)(id' \<mapsto> s\<lparr>lastResponse := ''Error: '' @ err\<rparr>)\<rparr>)
         \<and> fst (Ask apiClient sm id' (TrimSpace p)) = Inl (BackendError err)
         \<and> SessionAskFile_Read (snd (SessionAskFile_Write apiClient sm id' p)) id' cap 0 =
             Inr (take cap (if HasSuffix err [NL] then ''Error: '' @ err else ''Error: '' @ err @ [NL]))"
proof -
  have ask: "Ask apiClient sm id' (TrimSpace p) =
      (Inl (BackendError err), sm\<lparr>sessions := (sessions sm)(id' \<mapsto> s\<lparr>lastResponse := ''Error: '' @ err\<rparr>)\<rparr>)"
    using assms by (simp add: Ask_def Get_def IsClosed_def on_session_Some SetLastResponse_def)
  have wr: "SessionAskFile_Write apiClient sm id' p =
           (Inr (length p), sm\<lparr>sessions := (sessions sm)(id' \<mapsto> s\<lparr>lastResponse := ''Error: '' @ err\<rparr>)\<rparr>)"
    using assms(3) by (simp add: SessionAskFile_Write_def ask)
  have rd: "SessionAskFile_Read (sm\<lparr>sessions := (sessions sm)(id' \<mapsto> s\<lparr>lastResponse := ''Error: '' @ err\<rparr>)\<rparr>) id' cap 0 =
             Inr (take cap (if HasSuffix err [NL] then ''Error: '' @ err else ''Error: '' @ err @ [NL]))"
    by (simp add: SessionAskFile_Read_def Get_def SessionAskFile_content_def copy_from_def
        HasSuffix_NL)
  show ?thesis using ask wr rd by simp
qed

theorem ask_write_backend_failure_witness:
  "sessions sm_one 0 = Some (NewSession 0 DefaultSessionDefaults)
   \<and> \<not> closed_flag (NewSession 0 DefaultSessionDefaults)
   \<and> TrimSpace ''hi '' \<noteq> []
   \<and> backend_down (BuildRequest (NewSession 0 DefaultSessionDefaults) (TrimSpace ''hi '')) = Inl ''timeout''
   \<and> SessionAskFile_Write backend_down sm_one 0 ''hi '' =
       (Inr 3, sm_one\<lparr>sessions := (sessions sm_one)(0 \<mapsto>
          (NewSession 0 DefaultSessionDefaults)\<lparr>lastResponse := ''Error: timeout''\<rparr>)\<rparr>)
   \<and> SessionAskFile_Read (snd (SessionAskFile_Write backend_down sm_one 0 ''hi '')) 0 100 0 =
       Inr (''Error: timeout'' @ [NL])"
proof -
  have h1: "sessions sm_one 0 = Some (NewSession 0 DefaultSessionDefaults)"
    by (rule sessions_sm_one)
  have h2: "\<not> closed_flag (NewSession 0 DefaultSessionDefaults)"
    by (rule NewSession_open)
  have h3: "TrimSpace ''hi '' \<noteq> []"
    by (simp add: TrimSpace_defs)
  have h4: "backend_down (BuildRequest (NewSession 0 DefaultSessionDefaults) (TrimSpace ''hi '')) = Inl ''timeout''"
    by (simp add: backend_down_def)
  note c = ask_write_backend_failure [where sm = sm_one and id' = 0 and p = "''hi ''"
      and s = "NewSession 0 DefaultSessionDefaults" and apiClient = backend_down
      and err = "''timeout''" and cap = 100, OF h1 h2 h3 h4]
  from c have c1: "SessionAskFile_Write backend_down sm_one 0 ''hi '' =
       (Inr 3, sm_one\<lparr>sessions := (sessions sm_one)(0 \<mapsto>
          (NewSession 0 DefaultSessionDefaults)\<lparr>lastResponse := ''Error: timeout''\<rparr>)\<rparr>)"
    by simp
  from c have "SessionAskFile_Read (snd (SessionAskFile_Write backend_down sm_one 0 ''hi '')) 0 100 0 =
      Inr (take 100 (if HasSuffix ''timeout'' [NL] then ''Error: '' @ ''timeout''
                     else ''Error: '' @ ''timeout'' @ [NL]))"
    by blast
  then have c2: "SessionAskFile_Read (snd (SessionAskFile_Write backend_down sm_one 0 ''hi '')) 0 100 0 =
       Inr (''Error: timeout'' @ [NL])"
    by (simp add: HasSuffix_NL)
  show ?thesis
    using h1 h2 h3 h4 c1 c2 by blast
qed

subsection \<open>A successful backend call\<close>

text \<open>
  Claim C3.  For a registered session that is not closed, an \<^verbatim>\<open>Ask\<close> whose
  backend call succeeds returns the response, and the store differs from the
  one before only in that session: its history has two more entries, the user
  entry with the prompt and then the assistant entry with the response, its
  \<^verbatim>\<open>lastTokens\<close> is the returned token count, its \<^verbatim>\<open>totalTokens\<close> is the sum of
  the former total and that count (the sum of Go, on 64 bits), and its
  \<^verbatim>\<open>lastResponse\<close> is the response.  No other field of the session changes.
\<close>

theorem Ask_success:
  assumes "sessions sm id' = Some s" and "\<not> closed_flag s"
    and "apiClient (BuildRequest s prompt) = Inr (response, tokens)"
  shows "Ask apiClient sm id' prompt =
           (Inr response,
            sm\<lparr>sessions := (sessions sm)(id' \<mapsto>
                 s\<lparr>messages := messages s @ [\<lparr>Role = ''user'', Content = prompt\<rparr>,
                                                \<lparr>Role = ''assistant'', Content = response\<rparr>],
                   lastTokens := tokens,
                   totalTokens := wrap64 (totalTokens s + tokens),
                   lastResponse := response\<rparr>)\<rparr>)"
  using assms
  by (simp add: Ask_def Get_def IsClosed_def on_session_def Let_def
      SetLastResponse_def AddTokens_def AddMessage_def)

theorem Ask_success_witness:
  "sessions sm_one 0 = Some (NewSession 0 DefaultSessionDefaults)
   \<and> \<not> closed_flag (NewSession 0 DefaultSessionDefaults)
   \<and> backend_ok (BuildRequest (NewSession 0 DefaultSessionDefaults) ''ping'') = Inr (''pong'', 5)
   \<and> Ask backend_ok sm_one 0 ''ping'' =
       (Inr ''pong'',
        sm_one\<lparr>sessions := (sessions sm_one)(0 \<mapsto>
           (NewSession 0 DefaultSessionDefaults)
             \<lparr>messages := [\<lparr>Role = ''user'', Content = ''ping''\<rparr>,
                           \<lparr>Role = ''assistant'', Content = ''pong''\<rparr>],
              lastTokens := 5, totalTokens := 5, lastResponse := ''pong''\<rparr>)\<rparr>)"
proof -
  have h1: "sessions sm_one 0 = Some (NewSession 0 DefaultSessionDefaults)"
    by (rule sessions_sm_one)
  have h2: "\<not> closed_flag (NewSession 0 DefaultSessionDefaults)"
    by (rule NewSession_open)
  have h3: "backend_ok (BuildRequest (NewSession 0 DefaultSessionDefaults) ''ping'') = Inr (''pong'', 5)"
    by (simp add: backend_ok_def)
  note c = Ask_success [where sm = sm_one and id' = 0 and prompt = "''ping''"
      and s = "NewSession 0 DefaultSessionDefaults" and apiClient = backend_ok
      and response = "''pong''" and tokens = 5, OF h1 h2 h3]
  from c have c1: "Ask backend_ok sm_one 0 ''ping'' =
       (Inr ''pong'',
        sm_one\<lparr>sessions := (sessions sm_one)(0 \<mapsto>
           (NewSession 0 DefaultSessionDefaults)
             \<lparr>messages := [\<lparr>Role = ''user'', Content = ''ping''\<rparr>,
                           \<lparr>Role = ''assistant'', Content = ''pong''\<rparr>],
              lastTokens := 5, totalTokens := 5, lastResponse := ''pong''\<rparr>)\<rparr>)"
    by (simp add: NewSession_def wrap64_def)
  show ?thesis
    using h1 h2 h3 c1 by blast
qed

subsection \<open>Session ids\<close>

lemma exec_nextID:
  "exec rn sm x = (issued, sm') \<Longrightarrow>
     (issued = None \<and> nextID sm' = nextID sm) \<or>
     (issued = Some (nextID sm) \<and> nextID sm' = nextID sm + 1)"
  by (cases x)
    (auto simp: Ask_unfold file_writes store_ops session_ops Let_def
      split: option.splits sum.splits if_splits prod.splits)

lemma run_nextID_mono: "run rn sm xs = (ids, sm') \<Longrightarrow> nextID sm \<le> nextID sm'"
proof (induction xs arbitrary: sm ids sm')
  case Nil
  then show ?case by simp
next
  case (Cons x xs)
  obtain issued sm1 where e: "exec rn sm x = (issued, sm1)" by (cases "exec rn sm x")
  obtain ids1 sm2 where r: "run rn sm1 xs = (ids1, sm2)" by (cases "run rn sm1 xs")
  from Cons.prems e r have "sm' = sm2" by simp
  moreover from exec_nextID [OF e] have "nextID sm \<le> nextID sm1" by auto
  moreover from Cons.IH [OF r] have "nextID sm1 \<le> nextID sm2" .
  ultimately show ?case by simp
qed

text \<open>The ids that a run issues are the values of the counter, one after the other.\<close>

lemma run_ids: "run rn sm xs = (ids, sm') \<Longrightarrow> ids = [nextID sm .. nextID sm' - 1]"
proof (induction xs arbitrary: sm ids sm')
  case Nil
  then show ?case by simp
next
  case (Cons x xs)
  obtain issued sm1 where e: "exec rn sm x = (issued, sm1)" by (cases "exec rn sm x")
  obtain ids1 sm2 where r: "run rn sm1 xs = (ids1, sm2)" by (cases "run rn sm1 xs")
  from Cons.prems e r have eq: "sm' = sm2" "ids = (case issued of None \<Rightarrow> [] | Some i \<Rightarrow> [i]) @ ids1"
    by simp_all
  have ih: "ids1 = [nextID sm1 .. nextID sm2 - 1]" by (rule Cons.IH [OF r])
  have mono: "nextID sm1 \<le> nextID sm2" by (rule run_nextID_mono [OF r])
  from exec_nextID [OF e] show ?case
  proof
    assume "issued = None \<and> nextID sm1 = nextID sm"
    with eq ih show ?thesis by simp
  next
    assume a: "issued = Some (nextID sm) \<and> nextID sm1 = nextID sm + 1"
    with mono have "[nextID sm .. nextID sm2 - 1] = nextID sm # [nextID sm1 .. nextID sm2 - 1]"
      by (simp add: upto_rec1)
    with a eq ih show ?thesis by simp
  qed
qed

text \<open>
  Claim C2.  Whatever operations a run is made of (creations through
  \<^verbatim>\<open>Create\<close> or through reads of the clone file, with closes, resets, asks and
  writes of settings between them) and whatever store it starts from, the ids
  that \<^verbatim>\<open>Create\<close> returns during the run are pairwise distinct, in strictly
  increasing order, not below the counter at the start and below the counter at
  the end; the counter has grown by the number of ids issued, and one
  \<^verbatim>\<open>Create\<close> returns the counter and increments it.
\<close>

theorem Create_ids_never_reused:
  "run rn sm xs = (ids, sm') \<Longrightarrow>
     distinct ids \<and> sorted_wrt (<) ids \<and> (\<forall>i \<in> set ids. nextID sm \<le> i \<and> i < nextID sm')
     \<and> nextID sm' = nextID sm + int (length ids)
     \<and> fst (Create sm) = nextID sm \<and> nextID (snd (Create sm)) = nextID sm + 1"
proof -
  assume r: "run rn sm xs = (ids, sm')"
  have ids: "ids = [nextID sm .. nextID sm' - 1]" by (rule run_ids [OF r])
  have mono: "nextID sm \<le> nextID sm'" by (rule run_nextID_mono [OF r])
  have "distinct ids" using ids by simp
  moreover have "sorted_wrt (<) ids" using ids by (simp add: sorted_wrt_upto)
  moreover have "\<forall>i \<in> set ids. nextID sm \<le> i \<and> i < nextID sm'" using ids by auto
  moreover have "nextID sm' = nextID sm + int (length ids)" using ids mono by simp
  moreover have "fst (Create sm) = nextID sm \<and> nextID (snd (Create sm)) = nextID sm + 1"
    by (simp add: Create_def Let_def)
  ultimately show ?thesis by blast
qed

lemma run_ops_example:
  "fst (run no_numbers NewSessionManager ops_example) = [0, 1, 2]"
  "nextID (snd (run no_numbers NewSessionManager ops_example)) = 3"
  by (simp_all add: ops_example_def NewSessionManager_def Create_def Close_def NewFile_Read_def
      Let_def)

theorem Create_ids_never_reused_witness:
  "run no_numbers NewSessionManager ops_example =
     ([0, 1, 2], snd (run no_numbers NewSessionManager ops_example))
   \<and> distinct (fst (run no_numbers NewSessionManager ops_example))
   \<and> sorted_wrt (<) (fst (run no_numbers NewSessionManager ops_example))
   \<and> nextID (snd (run no_numbers NewSessionManager ops_example)) = 0 + int (length [0, 1, 2 :: int])
   \<and> 2 < nextID (snd (run no_numbers NewSessionManager ops_example))"
proof -
  have h: "run no_numbers NewSessionManager ops_example =
      ([0, 1, 2], snd (run no_numbers NewSessionManager ops_example))"
    using run_ops_example(1) by (simp add: prod_eq_iff)
  note c = Create_ids_never_reused [OF h]
  have n0: "nextID NewSessionManager = 0" by (simp add: NewSessionManager_def)
  from c have c1: "distinct (fst (run no_numbers NewSessionManager ops_example))"
    using run_ops_example(1) by simp
  from c have c2: "sorted_wrt (<) (fst (run no_numbers NewSessionManager ops_example))"
    using run_ops_example(1) by simp
  from c n0 have c3: "nextID (snd (run no_numbers NewSessionManager ops_example)) =
      0 + int (length [0, 1, 2 :: int])"
    by simp
  from c have c4: "2 < nextID (snd (run no_numbers NewSessionManager ops_example))"
    by simp
  show ?thesis using h c1 c2 c3 c4 by blast
qed

subsection \<open>The closed flag\<close>

lemma exec_registry_open: "registry_open sm \<Longrightarrow> registry_open (snd (exec rn sm x))"
  unfolding registry_open_def
  by (cases x)
    (auto simp: Ask_unfold file_writes store_ops session_ops NewSession_def Let_def
      split: option.splits sum.splits if_splits prod.splits)

lemma exec_ids_below_next: "ids_below_next sm \<Longrightarrow> ids_below_next (snd (exec rn sm x))"
  unfolding ids_below_next_def
  by (cases x)
    (auto simp: Ask_unfold file_writes store_ops session_ops NewSession_def Let_def
      split: option.splits sum.splits if_splits prod.splits)

lemma reachable_registry_open: "reachable rn sm \<Longrightarrow> registry_open sm"
proof (induction rule: reachable.induct)
  case reachable_init
  show ?case by (simp add: registry_open_def NewSessionManager_def)
next
  case (reachable_step sm x)
  then show ?case by (simp add: exec_registry_open)
qed

lemma reachable_ids_below_next: "reachable rn sm \<Longrightarrow> ids_below_next sm"
proof (induction rule: reachable.induct)
  case reachable_init
  show ?case by (simp add: ids_below_next_def NewSessionManager_def)
next
  case (reachable_step sm x)
  then show ?case by (simp add: exec_ids_below_next)
qed

lemma reachable_sm_one: "reachable rn sm_one"
  using reachable_step [OF reachable_init, of rn Op_Create] by (simp add: sm_one_def)

lemma reachable_sm_asked: "reachable no_numbers sm_asked"
  unfolding sm_asked_def by (rule reachable_step [OF reachable_sm_one])

text \<open>
  Claim C10.  In every store that a run of the program from the new manager
  reaches, each session of the registry has its closed flag false.  So
  \<^verbatim>\<open>Ask\<close> never returns the session-closed error there; and once \<^verbatim>\<open>Close\<close> has
  run on an id, the id is out of the registry and \<^verbatim>\<open>Ask\<close> on it returns the
  not-found error, the store unchanged.
\<close>

theorem registered_sessions_never_closed:
  assumes "reachable rn sm"
  shows "(\<forall>i s. sessions sm i = Some s \<longrightarrow> \<not> closed_flag s)
       \<and> fst (Ask apiClient sm i prompt) \<noteq> Inl ErrSessionClosed
       \<and> sessions (Close sm i) i = None
       \<and> Ask apiClient (Close sm i) i prompt = (Inl ErrSessionNotFound, Close sm i)"
proof -
  have ro: "registry_open sm" by (rule reachable_registry_open [OF assms])
  then have a: "\<forall>i s. sessions sm i = Some s \<longrightarrow> \<not> closed_flag s"
    by (simp add: registry_open_def)
  have b: "fst (Ask apiClient sm i prompt) \<noteq> Inl ErrSessionClosed"
    using a by (simp add: Ask_unfold split: option.splits sum.splits prod.splits)
  have c: "sessions (Close sm i) i = None"
    by (simp add: Close_sessions)
  have d: "Ask apiClient (Close sm i) i prompt = (Inl ErrSessionNotFound, Close sm i)"
    using c by (simp add: Ask_unfold)
  show ?thesis using a b c d by blast
qed

theorem registered_sessions_never_closed_witness:
  "reachable no_numbers sm_asked
   \<and> sessions sm_asked 0 \<noteq> None
   \<and> \<not> closed_flag (the (sessions sm_asked 0))
   \<and> fst (Ask backend_ok sm_asked 0 ''more'') \<noteq> Inl ErrSessionClosed
   \<and> Ask backend_ok (Close sm_asked 0) 0 ''more'' = (Inl ErrSessionNotFound, Close sm_asked 0)"
proof -
  note c = registered_sessions_never_closed [OF reachable_sm_asked,
      where apiClient = backend_ok and i = 0 and prompt = "''more''"]
  have s: "sessions sm_asked 0 \<noteq> None"
    by (simp add: sm_asked_def Ask_unfold sessions_sm_one NewSession_open backend_ok_def)
  with c have c1: "\<not> closed_flag (the (sessions sm_asked 0))" by auto
  show ?thesis using reachable_sm_asked s c1 c by blast
qed

subsection \<open>The token total\<close>

lemma exec_totals_in_range: "totals_in_range sm \<Longrightarrow> totals_in_range (snd (exec rn sm x))"
  unfolding totals_in_range_def
  using wrap64_range
  by (cases x)
    (auto simp: Ask_unfold file_writes store_ops session_ops NewSession_def Let_def
      split: option.splits sum.splits if_splits prod.splits)

lemma reachable_totals_in_range: "reachable rn sm \<Longrightarrow> totals_in_range sm"
proof (induction rule: reachable.induct)
  case reachable_init
  show ?case by (simp add: totals_in_range_def NewSessionManager_def)
next
  case (reachable_step sm x)
  then show ?case by (simp add: exec_totals_in_range)
qed

lemma exec_totalTokens:
  assumes "ids_below_next sm" and "totals_in_range sm" and "sessions sm i = Some s"
    and "sessions (snd (exec rn sm x)) i = Some s'" and "op_tokens_fit (totalTokens s) x"
  shows "if resets i x then totalTokens s' = 0 else totalTokens s \<le> totalTokens s'"
proof -
  have lo: "- (2 ^ 63) \<le> totalTokens s"
    using assms(2,3) by (simp add: totals_in_range_def)
  have add: "wrap64 (totalTokens s + t) = totalTokens s + t"
    if "0 \<le> t" and "totalTokens s + t < 2 ^ 63" for t
    using that lo by (intro wrap64_id) simp_all
  show ?thesis
    using assms(1,3,4,5) add unfolding ids_below_next_def
    by (cases x)
      (auto simp: Ask_unfold file_writes store_ops session_ops NewSession_def Let_def
        tokens_fit_def
        split: option.splits sum.splits if_splits prod.splits)
qed

lemma sessions_sm_asked:
  "sessions sm_asked 0 = Some ((NewSession 0 DefaultSessionDefaults)
     \<lparr>messages := [\<lparr>Role = ''user'', Content = ''ping''\<rparr>,
                   \<lparr>Role = ''assistant'', Content = ''pong''\<rparr>],
      lastTokens := 5, totalTokens := 5, lastResponse := ''pong''\<rparr>)"
  by (simp add: sm_asked_def Ask_unfold sessions_sm_one NewSession_open backend_ok_def
      NewSession_def wrap64_def)

lemma sessions_sm_huge:
  "sessions sm_huge 0 = Some ((NewSession 0 DefaultSessionDefaults)
     \<lparr>messages := [\<lparr>Role = ''user'', Content = ''ping''\<rparr>,
                   \<lparr>Role = ''assistant'', Content = ''pong''\<rparr>],
      lastTokens := 9223372036854775807, totalTokens := 9223372036854775807,
      lastResponse := ''pong''\<rparr>)"
  by (simp add: sm_huge_def Ask_unfold sessions_sm_one NewSession_open backend_huge_def
      NewSession_def wrap64_def)

lemma reachable_sm_huge: "reachable no_numbers sm_huge"
  unfolding sm_huge_def by (rule reachable_step [OF reachable_sm_one])

text \<open>
  Claim C4 fails, in three ways.  A reset, which is \<^verbatim>\<open>Session.Reset\<close> reached
  from \<^verbatim>\<open>SessionManager.Reset\<close> or from \<^verbatim>\<open>reset\<close> written to the control file,
  sets \<^verbatim>\<open>totalTokens\<close> to 0: here from 5.  \<^verbatim>\<open>AddTokens\<close> adds the count of the
  backend whatever its sign: a count of -3 takes the total from 5 to 2.  And
  the addition is that of a 64-bit \<^verbatim>\<open>int\<close>: a total of \<open>2^63 - 1\<close> and a count of
  \<open>2^63 - 1\<close> give -2.
\<close>

theorem totalTokens_decrease_counterexample:
  "reachable no_numbers sm_asked
   \<and> totalTokens (the (sessions sm_asked 0)) = 5
   \<and> totalTokens (the (sessions (snd (exec no_numbers sm_asked (Op_Ctl_Write 0 ''reset''))) 0)) = 0
   \<and> \<not> totalTokens (the (sessions sm_asked 0))
        \<le> totalTokens (the (sessions (snd (exec no_numbers sm_asked (Op_Ctl_Write 0 ''reset''))) 0))
   \<and> totalTokens (the (sessions (snd (exec no_numbers sm_asked
          (Op_Ask backend_negative 0 ''more''))) 0)) = 2
   \<and> \<not> totalTokens (the (sessions sm_asked 0))
        \<le> totalTokens (the (sessions (snd (exec no_numbers sm_asked
              (Op_Ask backend_negative 0 ''more''))) 0))
   \<and> reachable no_numbers sm_huge
   \<and> totalTokens (the (sessions sm_huge 0)) = 9223372036854775807
   \<and> totalTokens (the (sessions (snd (exec no_numbers sm_huge
          (Op_Ask backend_huge 0 ''more''))) 0)) = - 2
   \<and> \<not> totalTokens (the (sessions sm_huge 0))
        \<le> totalTokens (the (sessions (snd (exec no_numbers sm_huge
              (Op_Ask backend_huge 0 ''more''))) 0))"
proof -
  have t: "TrimSpace ''reset'' = ''reset''" by (simp add: TrimSpace_defs)
  have a: "totalTokens (the (sessions sm_asked 0)) = 5"
    by (simp add: sessions_sm_asked)
  have b: "totalTokens (the (sessions (snd (exec no_numbers sm_asked (Op_Ctl_Write 0 ''reset''))) 0)) = 0"
    by (simp add: SessionCtlFile_Write_def t Reset_def Get_def sessions_sm_asked on_session_Some
        Session_Reset_def)
  have c: "totalTokens (the (sessions (snd (exec no_numbers sm_asked
          (Op_Ask backend_negative 0 ''more''))) 0)) = 2"
    by (simp add: Ask_unfold sessions_sm_asked NewSession_def backend_negative_def wrap64_def)
  have d: "totalTokens (the (sessions sm_huge 0)) = 9223372036854775807"
    by (simp add: sessions_sm_huge)
  have e: "totalTokens (the (sessions (snd (exec no_numbers sm_huge
          (Op_Ask backend_huge 0 ''more''))) 0)) = - 2"
    by (simp add: Ask_unfold sessions_sm_huge NewSession_def backend_huge_def wrap64_def)
  show ?thesis using reachable_sm_asked reachable_sm_huge a b c d e by simp
qed

text \<open>
  Claim C4, amended.  In a store that the program reaches, an operation leaves
  the \<^verbatim>\<open>totalTokens\<close> of every session that is registered before and after it at
  least as large as it was, unless the operation resets that session, provided
  that the backend of the operation, if it has one, reports a token count that
  is not negative and that does not take the total of the session beyond
  \<open>2^63 - 1\<close>.  A reset sets the total to 0.
\<close>

theorem totalTokens_monotone_except_reset:
  assumes "reachable rn sm" and "sessions sm i = Some s"
    and "sessions (snd (exec rn sm x)) i = Some s'" and "op_tokens_fit (totalTokens s) x"
  shows "if resets i x then totalTokens s' = 0 else totalTokens s \<le> totalTokens s'"
  using assms(2) assms(3) assms(4)
  by (rule exec_totalTokens [OF reachable_ids_below_next [OF assms(1)]
        reachable_totals_in_range [OF assms(1)]])

theorem totalTokens_monotone_except_reset_witness:
  "reachable no_numbers sm_asked
   \<and> sessions sm_asked 0 = Some (the (sessions sm_asked 0))
   \<and> sessions (snd (exec no_numbers sm_asked (Op_Ask_Write backend_ok 0 ''more''))) 0 =
       Some (the (sessions (snd (exec no_numbers sm_asked (Op_Ask_Write backend_ok 0 ''more''))) 0))
   \<and> op_tokens_fit (totalTokens (the (sessions sm_asked 0))) (Op_Ask_Write backend_ok 0 ''more'')
   \<and> \<not> resets 0 (Op_Ask_Write backend_ok 0 ''more'')
   \<and> totalTokens (the (sessions sm_asked 0)) = 5
   \<and> totalTokens (the (sessions (snd (exec no_numbers sm_asked (Op_Ask_Write backend_ok 0 ''more''))) 0)) = 10
   \<and> totalTokens (the (sessions sm_asked 0))
       \<le> totalTokens (the (sessions (snd (exec no_numbers sm_asked (Op_Ask_Write backend_ok 0 ''more''))) 0))"
proof -
  have t: "TrimSpace ''more'' = ''more''" by (simp add: TrimSpace_defs)
  have h2: "sessions sm_asked 0 = Some (the (sessions sm_asked 0))"
    by (simp add: sessions_sm_asked)
  have e: "sessions (snd (exec no_numbers sm_asked (Op_Ask_Write backend_ok 0 ''more''))) 0 \<noteq> None"
    by (simp add: SessionAskFile_Write_def t Ask_unfold sessions_sm_asked NewSession_def
        backend_ok_def)
  then have h3: "sessions (snd (exec no_numbers sm_asked (Op_Ask_Write backend_ok 0 ''more''))) 0 =
       Some (the (sessions (snd (exec no_numbers sm_asked (Op_Ask_Write backend_ok 0 ''more''))) 0))"
    by auto
  have a: "totalTokens (the (sessions sm_asked 0)) = 5"
    by (simp add: sessions_sm_asked)
  have h4: "op_tokens_fit (totalTokens (the (sessions sm_asked 0))) (Op_Ask_Write backend_ok 0 ''more'')"
    by (simp add: a tokens_fit_def backend_ok_def)
  have h5: "\<not> resets 0 (Op_Ask_Write backend_ok 0 ''more'')" by simp
  note c = totalTokens_monotone_except_reset [OF reachable_sm_asked h2 h3 h4]
  from c h5 have c1: "totalTokens (the (sessions sm_asked 0))
       \<le> totalTokens (the (sessions (snd (exec no_numbers sm_asked (Op_Ask_Write backend_ok 0 ''more''))) 0))"
    by simp
  have b: "totalTokens (the (sessions (snd (exec no_numbers sm_asked (Op_Ask_Write backend_ok 0 ''more''))) 0)) = 10"
    by (simp add: SessionAskFile_Write_def t Ask_unfold sessions_sm_asked NewSession_def
        backend_ok_def wrap64_def)
  show ?thesis using reachable_sm_asked h2 h3 h4 h5 a b c1 by blast
qed

subsection \<open>After a close\<close>

text \<open>
  Claim C6 fails for the control file, which never looks its session up: after
  the close a read of it is at the end of data, as every read of it is, and a
  write of \<^verbatim>\<open>reset\<close> to it reports success, since \<^verbatim>\<open>SessionManager.Reset\<close> (like
  \<^verbatim>\<open>Close\<close>) returns no error for an id that is not registered.  Neither fails
  with the not-found error.
\<close>

theorem closed_session_ctl_counterexample:
  "SessionCtlFile_Read (snd (SessionCtlFile_Write sm_one 0 ''close'')) 0 64 0 = Inl EOF
   \<and> SessionCtlFile_Read (snd (SessionCtlFile_Write sm_one 0 ''close'')) 0 64 0 \<noteq> Inl ErrNotFound
   \<and> SessionCtlFile_Write (snd (SessionCtlFile_Write sm_one 0 ''close'')) 0 ''reset'' =
       (Inr 5, snd (SessionCtlFile_Write sm_one 0 ''close''))
   \<and> fst (SessionCtlFile_Write (snd (SessionCtlFile_Write sm_one 0 ''close'')) 0 ''reset'')
       \<noteq> Inl ErrNotFound"
proof -
  have t: "TrimSpace ''close'' = ''close''" by (simp add: TrimSpace_defs)
  have r: "TrimSpace ''reset'' = ''reset''" by (simp add: TrimSpace_defs)
  have g: "Get (Close sm_one 0) 0 = None" by (simp add: Get_def Close_sessions)
  have w: "SessionCtlFile_Write sm_one 0 ''close'' = (Inr 5, Close sm_one 0)"
    by (simp add: ctl_close [OF t])
  have k: "SessionCtlFile_Write (Close sm_one 0) 0 ''reset'' = (Inr 5, Close sm_one 0)"
    by (simp add: SessionCtlFile_Write_def r Reset_def g)
  show ?thesis
    by (simp add: w k SessionCtlFile_Read_def)
qed

text \<open>
  Claim C6, amended.  After \<^verbatim>\<open>close\<close> (surrounded by any white space) has been
  written to the control file of a session, the write having reported success:
  the directory of the session is not in the listing of the root; the lookup in
  the root of its name, and of any other numeral of its id, fails with the
  not-found error, as does every lookup in its directory, whose listing is
  empty; every read of its ask, context, model, temperature, system, thinking
  and prefill files and every write to its model, temperature, system,
  thinking and prefill files fails with the not-found error and leaves the
  store unchanged, and \<^verbatim>\<open>Ask\<close> on the id returns its not-found error.  The
  control file still reads as end of data and still takes \<^verbatim>\<open>reset\<close> and
  \<^verbatim>\<open>close\<close>, which change nothing, and refuses any other command.  (Nothing is
  said here of a write to the ask file.)
\<close>

theorem closed_session_not_found:
  assumes "TrimSpace p = ''close''"
  shows "fst (SessionCtlFile_Write sm i p) = Inr (length p)
    \<and> (let sm' = snd (SessionCtlFile_Write sm i p) in
         SessionDirNode i \<notin> SessionsDir_Children sm'
       \<and> SessionsDir_Lookup sm' (SessionDir_Name i) = Inl ErrNotFound
       \<and> (Atoi name = Inr i \<longrightarrow> SessionsDir_Lookup sm' name = Inl ErrNotFound)
       \<and> SessionDir_Lookup sm' i name = Inl ErrNotFound
       \<and> SessionDir_Children sm' i = []
       \<and> SessionAskFile_Read sm' i cap offset = Inl ErrNotFound
       \<and> SessionContextFile_Read marshal sm' i cap offset = Inl ErrNotFound
       \<and> SessionModelFile_Read sm' i cap offset = Inl ErrNotFound
       \<and> SessionTemperatureFile_Read fmt2f sm' i cap offset = Inl ErrNotFound
       \<and> SessionSystemFile_Read sm' i cap offset = Inl ErrNotFound
       \<and> SessionThinkingFile_Read sm' i cap offset = Inl ErrNotFound
       \<and> SessionPrefillFile_Read sm' i cap offset = Inl ErrNotFound
       \<and> SessionModelFile_Write sm' i q = (Inl ErrNotFound, sm')
       \<and> SessionTemperatureFile_Write rn sm' i q = (Inl ErrNotFound, sm')
       \<and> SessionSystemFile_Write sm' i q = (Inl ErrNotFound, sm')
       \<and> SessionThinkingFile_Write sm' i q = (Inl ErrNotFound, sm')
       \<and> SessionPrefillFile_Write sm' i q = (Inl ErrNotFound, sm')
       \<and> Ask apiClient sm' i prompt = (Inl ErrSessionNotFound, sm')
       \<and> SessionCtlFile_Read sm' i cap offset = Inl EOF
       \<and> SessionCtlFile_Write sm' i q =
           (if TrimSpace q = ''reset'' \<or> TrimSpace q = ''close'' then (Inr (length q), sm')
            else (Inl (UnknownCommand (TrimSpace q)), sm')))"
proof -
  define sm' where "sm' = Close sm i"
  have w: "SessionCtlFile_Write sm i p = (Inr (length p), sm')"
    using assms by (simp add: ctl_close sm'_def)
  have gone: "sessions sm' i = None"
    by (simp add: sm'_def Close_sessions)
  have get: "Get sm' i = None"
    using gone by (simp add: Get_def)
  have c1: "SessionDirNode i \<notin> SessionsDir_Children sm'"
    using gone by (auto simp: SessionsDir_Children_def ListSessions_def)
  have c2: "SessionsDir_Lookup sm' (SessionDir_Name i) = Inl ErrNotFound"
    by (rule gone_lookup_root [OF gone])
  have c3: "Atoi name = Inr i \<longrightarrow> SessionsDir_Lookup sm' name = Inl ErrNotFound"
    using gone_lookup_root_any [OF gone] by blast
  have c4: "SessionDir_Lookup sm' i name = Inl ErrNotFound"
    by (simp add: SessionDir_Lookup_def get)
  have c5: "SessionDir_Children sm' i = []"
    by (simp add: SessionDir_Children_def get)
  have r1: "SessionAskFile_Read sm' i cap offset = Inl ErrNotFound"
    by (simp add: SessionAskFile_Read_def get)
  have r2: "SessionContextFile_Read marshal sm' i cap offset = Inl ErrNotFound"
    by (simp add: SessionContextFile_Read_def get)
  have r3: "SessionModelFile_Read sm' i cap offset = Inl ErrNotFound"
    by (simp add: SessionModelFile_Read_def get)
  have r4: "SessionTemperatureFile_Read fmt2f sm' i cap offset = Inl ErrNotFound"
    by (simp add: SessionTemperatureFile_Read_def get)
  have r5: "SessionSystemFile_Read sm' i cap offset = Inl ErrNotFound"
    by (simp add: SessionSystemFile_Read_def get)
  have r6: "SessionThinkingFile_Read sm' i cap offset = Inl ErrNotFound"
    by (simp add: SessionThinkingFile_Read_def get)
  have r7: "SessionPrefillFile_Read sm' i cap offset = Inl ErrNotFound"
    by (simp add: SessionPrefillFile_Read_def get)
  have w1: "SessionModelFile_Write sm' i q = (Inl ErrNotFound, sm')"
    by (simp add: SessionModelFile_Write_def get)
  have w2: "SessionTemperatureFile_Write rn sm' i q = (Inl ErrNotFound, sm')"
    by (simp add: SessionTemperatureFile_Write_def get)
  have w3: "SessionSystemFile_Write sm' i q = (Inl ErrNotFound, sm')"
    by (simp add: SessionSystemFile_Write_def get)
  have w4: "SessionThinkingFile_Write sm' i q = (Inl ErrNotFound, sm')"
    by (simp add: SessionThinkingFile_Write_def get)
  have w5: "SessionPrefillFile_Write sm' i q = (Inl ErrNotFound, sm')"
    by (simp add: SessionPrefillFile_Write_def get)
  have a1: "Ask apiClient sm' i prompt = (Inl ErrSessionNotFound, sm')"
    by (simp add: Ask_def get)
  have k1: "SessionCtlFile_Read sm' i cap offset = Inl EOF"
    by (simp add: SessionCtlFile_Read_def)
  have k2: "SessionCtlFile_Write sm' i q =
           (if TrimSpace q = ''reset'' \<or> TrimSpace q = ''close'' then (Inr (length q), sm')
            else (Inl (UnknownCommand (TrimSpace q)), sm'))"
    using gone by (simp add: SessionCtlFile_Write_def Reset_def Close_def get)
  show ?thesis
    unfolding w fst_conv snd_conv Let_def
    using c1 c2 c3 c4 c5 r1 r2 r3 r4 r5 r6 r7 w1 w2 w3 w4 w5 a1 k1 k2 by blast
qed

theorem closed_session_not_found_witness:
  "TrimSpace (''close'' @ [NL]) = ''close''
   \<and> fst (SessionCtlFile_Write sm_one 0 (''close'' @ [NL])) = Inr 6
   \<and> SessionDirNode 0 \<notin> SessionsDir_Children (snd (SessionCtlFile_Write sm_one 0 (''close'' @ [NL])))
   \<and> SessionDir_Name 0 = ''0''
   \<and> SessionsDir_Lookup (snd (SessionCtlFile_Write sm_one 0 (''close'' @ [NL]))) ''0'' = Inl ErrNotFound
   \<and> SessionsDir_Lookup (snd (SessionCtlFile_Write sm_one 0 (''close'' @ [NL]))) ''+00'' = Inl ErrNotFound
   \<and> SessionDir_Lookup (snd (SessionCtlFile_Write sm_one 0 (''close'' @ [NL]))) 0 ''ask'' = Inl ErrNotFound
   \<and> SessionAskFile_Read (snd (SessionCtlFile_Write sm_one 0 (''close'' @ [NL]))) 0 64 0 = Inl ErrNotFound
   \<and> fst (SessionModelFile_Write (snd (SessionCtlFile_Write sm_one 0 (''close'' @ [NL]))) 0 ''m'') =
       Inl ErrNotFound
   \<and> fst (Ask backend_ok (snd (SessionCtlFile_Write sm_one 0 (''close'' @ [NL]))) 0 ''hi'') =
       Inl ErrSessionNotFound"
proof -
  have h: "TrimSpace (''close'' @ [NL]) = ''close''" by (simp add: TrimSpace_defs)
  have n: "SessionDir_Name 0 = ''0''"
    by (simp add: SessionDir_Name_def Itoa_def FormatUint.simps digit_char_def)
  have a: "Atoi ''+00'' = Inr 0" by (simp add: Atoi_def ParseUint_def digit_of_def)
  note c = closed_session_not_found [OF h, where sm = sm_one and i = 0 and name = "''+00''"
      and cap = 64 and offset = 0 and q = "''hi''" and apiClient = backend_ok
      and marshal = marshal_example and fmt2f = fmt_example and rn = no_numbers
      and prompt = "''hi''"]
  note d = closed_session_not_found [OF h, where sm = sm_one and i = 0 and name = "''ask''"
      and cap = 64 and offset = 0 and q = "''m''" and apiClient = backend_ok
      and marshal = marshal_example and fmt2f = fmt_example and rn = no_numbers
      and prompt = "''hi''"]
  from c have c1: "fst (SessionCtlFile_Write sm_one 0 (''close'' @ [NL])) = Inr 6" by simp
  from c have c2: "SessionDirNode 0 \<notin> SessionsDir_Children (snd (SessionCtlFile_Write sm_one 0 (''close'' @ [NL])))"
    by (simp add: Let_def)
  from c n have c3: "SessionsDir_Lookup (snd (SessionCtlFile_Write sm_one 0 (''close'' @ [NL]))) ''0'' = Inl ErrNotFound"
    by (simp add: Let_def)
  from c a have c4: "SessionsDir_Lookup (snd (SessionCtlFile_Write sm_one 0 (''close'' @ [NL]))) ''+00'' = Inl ErrNotFound"
    by (simp add: Let_def)
  from d have c5: "SessionDir_Lookup (snd (SessionCtlFile_Write sm_one 0 (''close'' @ [NL]))) 0 ''ask'' = Inl ErrNotFound"
    by (simp add: Let_def)
  from c have c6: "SessionAskFile_Read (snd (SessionCtlFile_Write sm_one 0 (''close'' @ [NL]))) 0 64 0 = Inl ErrNotFound"
    by (simp add: Let_def)
  from d have c7: "fst (SessionModelFile_Write (snd (SessionCtlFile_Write sm_one 0 (''close'' @ [NL]))) 0 ''m'') =
       Inl ErrNotFound"
    by (simp add: Let_def)
  from c have c8: "fst (Ask backend_ok (snd (SessionCtlFile_Write sm_one 0 (''close'' @ [NL]))) 0 ''hi'') =
       Inl ErrSessionNotFound"
    by (simp add: Let_def)
  show ?thesis using h n c1 c2 c3 c4 c5 c6 c7 c8 by blast
qed

subsection \<open>The sizes that Stat reports\<close>

text \<open>
  Claim C5 fails for the thinking file, whose \<^verbatim>\<open>Stat\<close> reports the constant 16
  (\<^verbatim>\<open>// Estimate length\<close>): for a new session the content read from offset 0 is
  \<^verbatim>\<open>disabled\<close> and a newline, 9 bytes.
\<close>

theorem thinking_Stat_counterexample:
  "SessionThinkingFile_Stat 0 sm_one 0 = 16
   \<and> SessionThinkingFile_Read sm_one 0 100 0 = Inr (''disabled'' @ [NL])
   \<and> length (''disabled'' @ [NL]) = 9"
  by (simp add: SessionThinkingFile_Stat_def SessionThinkingFile_Read_def Get_def sessions_sm_one
      SessionThinkingFile_content_def NewSession_def DefaultSessionDefaults_def copy_from_0)

text \<open>
  Claim C5, amended.  For a registered session, the size that \<^verbatim>\<open>Stat\<close> reports
  is the length of the content that a read from offset 0 at the same store
  returns (up to the capacity of the buffer) for the model file, the
  temperature file, the context file when the history serialises, and the
  system and prefill files when the stored value is not empty and does not end
  in a newline.  The \<^verbatim>\<open>Stat\<close> of the thinking file reports 16, whatever its
  content.  (Nothing is said here of the ask file.)
\<close>

theorem Stat_sizes:
  assumes "sessions sm i = Some s"
  shows "SessionModelFile_Stat base sm i = length (SessionModelFile_content s)
    \<and> SessionModelFile_Read sm i cap 0 = Inr (take cap (SessionModelFile_content s))
    \<and> SessionTemperatureFile_Stat base fmt2f sm i = length (SessionTemperatureFile_content fmt2f s)
    \<and> SessionTemperatureFile_Read fmt2f sm i cap 0 =
        Inr (take cap (SessionTemperatureFile_content fmt2f s))
    \<and> (marshal (messages s) = Some c \<longrightarrow>
         SessionContextFile_Stat base marshal sm i = length (c @ [NL])
         \<and> SessionContextFile_Read marshal sm i cap 0 = Inr (take cap (c @ [NL])))
    \<and> (systemPrompt s \<noteq> [] \<and> \<not> HasSuffix (systemPrompt s) [NL] \<longrightarrow>
         SessionSystemFile_Stat base sm i = length (SessionSystemFile_content s)
         \<and> SessionSystemFile_Read sm i cap 0 = Inr (take cap (SessionSystemFile_content s)))
    \<and> (prefill s \<noteq> [] \<and> \<not> HasSuffix (prefill s) [NL] \<longrightarrow>
         SessionPrefillFile_Stat base sm i = length (SessionPrefillFile_content s)
         \<and> SessionPrefillFile_Read sm i cap 0 = Inr (take cap (SessionPrefillFile_content s)))
    \<and> SessionThinkingFile_Stat base sm i = 16
    \<and> SessionThinkingFile_Read sm i cap 0 = Inr (take cap (SessionThinkingFile_content s))"
proof -
  have get: "Get sm i = Some s" using assms by (simp add: Get_def)
  have m1: "SessionModelFile_Stat base sm i = length (SessionModelFile_content s)"
    by (simp add: SessionModelFile_Stat_def SessionModelFile_content_def get)
  have m2: "SessionModelFile_Read sm i cap 0 = Inr (take cap (SessionModelFile_content s))"
    by (simp add: SessionModelFile_Read_def SessionModelFile_content_def get copy_from_0)
  have t1: "SessionTemperatureFile_Stat base fmt2f sm i = length (SessionTemperatureFile_content fmt2f s)"
    by (simp add: SessionTemperatureFile_Stat_def SessionTemperatureFile_content_def get)
  have t2: "SessionTemperatureFile_Read fmt2f sm i cap 0 =
        Inr (take cap (SessionTemperatureFile_content fmt2f s))"
    by (simp add: SessionTemperatureFile_Read_def SessionTemperatureFile_content_def get copy_from_0)
  have c1: "marshal (messages s) = Some c \<longrightarrow>
         SessionContextFile_Stat base marshal sm i = length (c @ [NL])
         \<and> SessionContextFile_Read marshal sm i cap 0 = Inr (take cap (c @ [NL]))"
    by (simp add: SessionContextFile_Stat_def SessionContextFile_Read_def get copy_from_0)
  have s1: "systemPrompt s \<noteq> [] \<and> \<not> HasSuffix (systemPrompt s) [NL] \<longrightarrow>
         SessionSystemFile_Stat base sm i = length (SessionSystemFile_content s)
         \<and> SessionSystemFile_Read sm i cap 0 = Inr (take cap (SessionSystemFile_content s))"
    by (simp add: SessionSystemFile_Stat_def SessionSystemFile_Read_def
        SessionSystemFile_content_def get copy_from_0)
  have p1: "prefill s \<noteq> [] \<and> \<not> HasSuffix (prefill s) [NL] \<longrightarrow>
         SessionPrefillFile_Stat base sm i = length (SessionPrefillFile_content s)
         \<and> SessionPrefillFile_Read sm i cap 0 = Inr (take cap (SessionPrefillFile_content s))"
    by (simp add: SessionPrefillFile_Stat_def SessionPrefillFile_Read_def
        SessionPrefillFile_content_def get copy_from_0)
  have k1: "SessionThinkingFile_Stat base sm i = 16"
    by (simp add: SessionThinkingFile_Stat_def)
  have "SessionThinkingFile_content s \<noteq> []"
    by (simp add: SessionThinkingFile_content_def Let_def)
  then have k2: "SessionThinkingFile_Read sm i cap 0 = Inr (take cap (SessionThinkingFile_content s))"
    by (simp add: SessionThinkingFile_Read_def get copy_from_0)
  show ?thesis using m1 m2 t1 t2 c1 s1 p1 k1 k2 by blast
qed

lemma sessions_sm_set:
  "sessions sm_set 0 = Some ((NewSession 0 DefaultSessionDefaults)
     \<lparr>systemPrompt := ''Be brief'', prefill := ''Sure''\<rparr>)"
proof -
  have t: "TrimSpace ''Be brief'' = ''Be brief''" by (simp add: TrimSpace_defs)
  show ?thesis
    by (simp add: sm_set_def SessionSystemFile_Write_def SessionPrefillFile_Write_def Get_def
        sessions_sm_one on_session_Some SetSystemPrompt_def SetPrefill_def TrimSuffix_NL t)
qed

theorem Stat_sizes_witness:
  "sessions sm_set 0 = Some ((NewSession 0 DefaultSessionDefaults)
     \<lparr>systemPrompt := ''Be brief'', prefill := ''Sure''\<rparr>)
   \<and> SessionModelFile_Stat 0 sm_set 0 = 25
   \<and> SessionModelFile_Read sm_set 0 64 0 = Inr (''claude-sonnet-4-20250514'' @ [NL])
   \<and> SessionTemperatureFile_Stat 0 fmt_example sm_set 0 = 5
   \<and> SessionTemperatureFile_Read fmt_example sm_set 0 64 0 = Inr (''0.70'' @ [NL])
   \<and> SessionContextFile_Stat 0 marshal_example sm_set 0 = 3
   \<and> SessionContextFile_Read marshal_example sm_set 0 64 0 = Inr (''[]'' @ [NL])
   \<and> SessionSystemFile_Stat 0 sm_set 0 = 9
   \<and> SessionSystemFile_Read sm_set 0 64 0 = Inr (''Be brief'' @ [NL])
   \<and> SessionPrefillFile_Stat 0 sm_set 0 = 5
   \<and> SessionPrefillFile_Read sm_set 0 64 0 = Inr (''Sure'' @ [NL])
   \<and> SessionThinkingFile_Stat 0 sm_set 0 = 16"
proof -
  note c = Stat_sizes [OF sessions_sm_set, where base = 0 and cap = 64 and fmt2f = fmt_example
      and marshal = marshal_example and c = "''[]''"]
  have m: "marshal_example (messages ((NewSession 0 DefaultSessionDefaults)
     \<lparr>systemPrompt := ''Be brief'', prefill := ''Sure''\<rparr>)) = Some ''[]''"
    by (simp add: marshal_example_def)
  from c have c1: "SessionModelFile_Stat 0 sm_set 0 = 25"
    by (simp add: SessionModelFile_content_def NewSession_def DefaultSessionDefaults_def)
  from c have c2: "SessionModelFile_Read sm_set 0 64 0 = Inr (''claude-sonnet-4-20250514'' @ [NL])"
    by (simp add: SessionModelFile_content_def NewSession_def DefaultSessionDefaults_def)
  from c have c3: "SessionTemperatureFile_Stat 0 fmt_example sm_set 0 = 5"
    by (simp add: SessionTemperatureFile_content_def fmt_example_def)
  from c have c4: "SessionTemperatureFile_Read fmt_example sm_set 0 64 0 = Inr (''0.70'' @ [NL])"
    by (simp add: SessionTemperatureFile_content_def fmt_example_def)
  from c m have c5: "SessionContextFile_Stat 0 marshal_example sm_set 0 = 3" by simp
  from c m have c6: "SessionContextFile_Read marshal_example sm_set 0 64 0 = Inr (''[]'' @ [NL])"
    by simp
  from c have c7: "SessionSystemFile_Stat 0 sm_set 0 = 9"
    by (simp add: SessionSystemFile_content_def HasSuffix_NL)
  from c have c8: "SessionSystemFile_Read sm_set 0 64 0 = Inr (''Be brief'' @ [NL])"
    by (simp add: SessionSystemFile_content_def HasSuffix_NL)
  from c have c9: "SessionPrefillFile_Stat 0 sm_set 0 = 5"
    by (simp add: SessionPrefillFile_content_def HasSuffix_NL)
  from c have c10: "SessionPrefillFile_Read sm_set 0 64 0 = Inr (''Sure'' @ [NL])"
    by (simp add: SessionPrefillFile_content_def HasSuffix_NL)
  from c have c11: "SessionThinkingFile_Stat 0 sm_set 0 = 16" by simp
  show ?thesis using sessions_sm_set c1 c2 c3 c4 c5 c6 c7 c8 c9 c10 c11 by blast
qed

subsection \<open>The temperature file\<close>

text \<open>
  Claim C7: the text \<^verbatim>\<open>NaN\<close> is not a temperature of the range from 0.0 to 2.0,
  yet the write of it succeeds and stores the not-a-number.
  \<^verbatim>\<open>strconv.ParseFloat\<close> parses it without error, and both comparisons of the
  range check, \<^verbatim>\<open>temp < 0.0\<close> and \<^verbatim>\<open>temp > 2.0\<close>, are false for it.  This holds
  whatever \<open>rn\<close>, the conversion of numerals, is.
\<close>

theorem temperature_accepts_NaN:
  "SessionTemperatureFile_Write rn sm_one 0 ''NaN'' =
     (Inr 3, sm_one\<lparr>sessions := (sessions sm_one)(0 \<mapsto>
        (NewSession 0 DefaultSessionDefaults)\<lparr>temperature := NaN\<rparr>)\<rparr>)"
proof -
  have t: "TrimSpace ''NaN'' = ''NaN''" by (simp add: TrimSpace_defs)
  have p: "ParseFloat rn ''NaN'' = Inr NaN"
    by (simp add: ParseFloat_def special_def lower_def)
  show ?thesis
    by (simp add: SessionTemperatureFile_Write_def Get_def sessions_sm_one t p float_gt_def
        on_session_Some SetTemperature_def)
qed

text \<open>
  Every other write to the temperature file of a registered session: a text
  that \<^verbatim>\<open>strconv.ParseFloat\<close> rejects and a value below 0 or above 2 return an
  error and leave the store as it is; any other value is stored.
\<close>

lemma temperature_write_cases:
  assumes "sessions sm i = Some s"
  shows "SessionTemperatureFile_Write rn sm i p =
     (case ParseFloat rn (TrimSpace p) of
        Inl e \<Rightarrow> (Inl (InvalidTemperature e), sm)
      | Inr t \<Rightarrow> if float_lt t (Finite 0) \<or> float_lt (Finite 2) t then (Inl TemperatureOutOfRange, sm)
                 else (Inr (length p), sm\<lparr>sessions := (sessions sm)(i \<mapsto> s\<lparr>temperature := t\<rparr>)\<rparr>))"
  using assms
  by (simp add: SessionTemperatureFile_Write_def Get_def float_gt_def on_session_Some
      SetTemperature_def split: sum.splits)

subsection \<open>The thinking file\<close>

text \<open>
  Claim C8.  For a registered session: the writes of \<^verbatim>\<open>max\<close> and of \<^verbatim>\<open>-1\<close> end in
  the same store, from which the file reads \<^verbatim>\<open>max\<close> and a newline; the writes of
  \<^verbatim>\<open>0\<close>, \<^verbatim>\<open>off\<close> and \<^verbatim>\<open>disabled\<close> end in the same store, from which the file
  reads \<^verbatim>\<open>disabled\<close> and a newline; after the write of \<^verbatim>\<open>500\<close> the file reads
  \<^verbatim>\<open>500\<close> and a newline; and a write whose trimmed text is none of the five
  words and which \<^verbatim>\<open>strconv.Atoi\<close> does not parse fails with an error and leaves
  the store unchanged.
\<close>

theorem thinking_synonyms:
  assumes "sessions sm i = Some s"
  shows "(let sm_max = sm\<lparr>sessions := (sessions sm)(i \<mapsto> s\<lparr>thinkingTokens := - 1\<rparr>)\<rparr>;
              sm_off = sm\<lparr>sessions := (sessions sm)(i \<mapsto> s\<lparr>thinkingTokens := 0\<rparr>)\<rparr>;
              sm_500 = sm\<lparr>sessions := (sessions sm)(i \<mapsto> s\<lparr>thinkingTokens := 500\<rparr>)\<rparr>
          in SessionThinkingFile_Write sm i ''max'' = (Inr 3, sm_max)
           \<and> SessionThinkingFile_Write sm i ''-1'' = (Inr 2, sm_max)
           \<and> SessionThinkingFile_Read sm_max i cap 0 = Inr (take cap (''max'' @ [NL]))
           \<and> SessionThinkingFile_Write sm i ''0'' = (Inr 1, sm_off)
           \<and> SessionThinkingFile_Write sm i ''off'' = (Inr 3, sm_off)
           \<and> SessionThinkingFile_Write sm i ''disabled'' = (Inr 8, sm_off)
           \<and> SessionThinkingFile_Read sm_off i cap 0 = Inr (take cap (''disabled'' @ [NL]))
           \<and> SessionThinkingFile_Write sm i ''500'' = (Inr 3, sm_500)
           \<and> SessionThinkingFile_Read sm_500 i cap 0 = Inr (take cap (''500'' @ [NL])))
       \<and> (TrimSpace p \<notin> {''max'', ''-1'', ''disabled'', ''off'', ''0''} \<and> Atoi (TrimSpace p) = Inl e
            \<longrightarrow> SessionThinkingFile_Write sm i p = (Inl (InvalidThinkingBudget e), sm))"
proof -
  note w = thinking_write_cases [OF assms]
  have a1: "SessionThinkingFile_Write sm i ''max'' =
      (Inr 3, sm\<lparr>sessions := (sessions sm)(i \<mapsto> s\<lparr>thinkingTokens := - 1\<rparr>)\<rparr>)"
    by (simp add: w TrimSpace_words)
  have a2: "SessionThinkingFile_Write sm i ''-1'' =
      (Inr 2, sm\<lparr>sessions := (sessions sm)(i \<mapsto> s\<lparr>thinkingTokens := - 1\<rparr>)\<rparr>)"
    by (simp add: w TrimSpace_words)
  have a3: "SessionThinkingFile_Read (sm\<lparr>sessions := (sessions sm)(i \<mapsto> s\<lparr>thinkingTokens := - 1\<rparr>)\<rparr>) i cap 0 =
      Inr (take cap (''max'' @ [NL]))"
    by (simp add: thinking_read_at SessionThinkingFile_content_def)
  have b1: "SessionThinkingFile_Write sm i ''0'' =
      (Inr 1, sm\<lparr>sessions := (sessions sm)(i \<mapsto> s\<lparr>thinkingTokens := 0\<rparr>)\<rparr>)"
    by (simp add: w TrimSpace_words)
  have b2: "SessionThinkingFile_Write sm i ''off'' =
      (Inr 3, sm\<lparr>sessions := (sessions sm)(i \<mapsto> s\<lparr>thinkingTokens := 0\<rparr>)\<rparr>)"
    by (simp add: w TrimSpace_words)
  have b3: "SessionThinkingFile_Write sm i ''disabled'' =
      (Inr 8, sm\<lparr>sessions := (sessions sm)(i \<mapsto> s\<lparr>thinkingTokens := 0\<rparr>)\<rparr>)"
    by (simp add: w TrimSpace_words)
  have b4: "SessionThinkingFile_Read (sm\<lparr>sessions := (sessions sm)(i \<mapsto> s\<lparr>thinkingTokens := 0\<rparr>)\<rparr>) i cap 0 =
      Inr (take cap (''disabled'' @ [NL]))"
    by (simp add: thinking_read_at SessionThinkingFile_content_def)
  have "Atoi ''500'' = Inr 500"
    by (simp add: Atoi_def ParseUint_def digit_of_def)
  then have c1: "SessionThinkingFile_Write sm i ''500'' =
      (Inr 3, sm\<lparr>sessions := (sessions sm)(i \<mapsto> s\<lparr>thinkingTokens := 500\<rparr>)\<rparr>)"
    by (simp add: w TrimSpace_words)
  have "Itoa 500 = ''500''"
    by (simp add: Itoa_def FormatUint.simps digit_char_def)
  then have c2: "SessionThinkingFile_Read (sm\<lparr>sessions := (sessions sm)(i \<mapsto> s\<lparr>thinkingTokens := 500\<rparr>)\<rparr>) i cap 0 =
      Inr (take cap (''500'' @ [NL]))"
    by (simp add: thinking_read_at SessionThinkingFile_content_def)
  have d: "TrimSpace p \<notin> {''max'', ''-1'', ''disabled'', ''off'', ''0''} \<and> Atoi (TrimSpace p) = Inl e
            \<longrightarrow> SessionThinkingFile_Write sm i p = (Inl (InvalidThinkingBudget e), sm)"
    by (simp add: w)
  show ?thesis
    unfolding Let_def using a1 a2 a3 b1 b2 b3 b4 c1 c2 d by blast
qed

theorem thinking_synonyms_witness:
  "sessions sm_one 0 = Some (NewSession 0 DefaultSessionDefaults)
   \<and> snd (SessionThinkingFile_Write sm_one 0 ''max'') = snd (SessionThinkingFile_Write sm_one 0 ''-1'')
   \<and> SessionThinkingFile_Read (snd (SessionThinkingFile_Write sm_one 0 ''-1'')) 0 64 0 = Inr (''max'' @ [NL])
   \<and> snd (SessionThinkingFile_Write sm_one 0 ''off'') = snd (SessionThinkingFile_Write sm_one 0 ''0'')
   \<and> snd (SessionThinkingFile_Write sm_one 0 ''disabled'') = snd (SessionThinkingFile_Write sm_one 0 ''0'')
   \<and> SessionThinkingFile_Read (snd (SessionThinkingFile_Write sm_one 0 ''off'')) 0 64 0 =
       Inr (''disabled'' @ [NL])
   \<and> SessionThinkingFile_Read (snd (SessionThinkingFile_Write sm_one 0 ''500'')) 0 64 0 = Inr (''500'' @ [NL])
   \<and> TrimSpace ''lots'' \<notin> {''max'', ''-1'', ''disabled'', ''off'', ''0''}
   \<and> Atoi (TrimSpace ''lots'') = Inl ErrSyntax
   \<and> SessionThinkingFile_Write sm_one 0 ''lots'' = (Inl (InvalidThinkingBudget ErrSyntax), sm_one)"
proof -
  have t: "TrimSpace ''lots'' = ''lots''" by (simp add: TrimSpace_defs)
  have h1: "TrimSpace ''lots'' \<notin> {''max'', ''-1'', ''disabled'', ''off'', ''0''}"
    by (simp add: t)
  have h2: "Atoi (TrimSpace ''lots'') = Inl ErrSyntax"
    by (simp add: t Atoi_def ParseUint_def digit_of_def)
  note c = thinking_synonyms [OF sessions_sm_one, where cap = 64 and p = "''lots''"
      and e = ErrSyntax]
  from c have c1: "snd (SessionThinkingFile_Write sm_one 0 ''max'') = snd (SessionThinkingFile_Write sm_one 0 ''-1'')"
    by (simp add: Let_def)
  from c have c2: "SessionThinkingFile_Read (snd (SessionThinkingFile_Write sm_one 0 ''-1'')) 0 64 0 = Inr (''max'' @ [NL])"
    by (simp add: Let_def)
  from c have c3: "snd (SessionThinkingFile_Write sm_one 0 ''off'') = snd (SessionThinkingFile_Write sm_one 0 ''0'')"
    by (simp add: Let_def)
  from c have c4: "snd (SessionThinkingFile_Write sm_one 0 ''disabled'') = snd (SessionThinkingFile_Write sm_one 0 ''0'')"
    by (simp add: Let_def)
  from c have c5: "SessionThinkingFile_Read (snd (SessionThinkingFile_Write sm_one 0 ''off'')) 0 64 0 =
       Inr (''disabled'' @ [NL])"
    by (simp add: Let_def)
  from c have c6: "SessionThinkingFile_Read (snd (SessionThinkingFile_Write sm_one 0 ''500'')) 0 64 0 = Inr (''500'' @ [NL])"
    by (simp add: Let_def)
  from c h1 h2 have c7: "SessionThinkingFile_Write sm_one 0 ''lots'' = (Inl (InvalidThinkingBudget ErrSyntax), sm_one)"
    by blast
  show ?thesis using sessions_sm_one h1 h2 c1 c2 c3 c4 c5 c6 c7 by blast
qed

subsection \<open>The prefill file\<close>

text \<open>
  Claim C9 fails for the empty value.  After a write of no bytes (or of one
  newline) the stored value is empty, so it does not end in a newline; yet the
  read appends none: \<^verbatim>\<open>SessionPrefillFile.Read\<close> appends only to a content that
  is not empty, and a read from offset 0 is at the end of data.
\<close>

theorem prefill_empty_counterexample:
  "prefill (the (sessions (snd (SessionPrefillFile_Write sm_one 0 [])) 0)) = []
   \<and> \<not> HasSuffix [] [NL]
   \<and> SessionPrefillFile_Read (snd (SessionPrefillFile_Write sm_one 0 [])) 0 100 0 = Inl EOF
   \<and> SessionPrefillFile_Read (snd (SessionPrefillFile_Write sm_one 0 [])) 0 100 0 \<noteq> Inr ([] @ [NL])"
  by (simp add: SessionPrefillFile_Write_def Get_def sessions_sm_one on_session_Some SetPrefill_def
      TrimSuffix_NL SessionPrefillFile_Read_def SessionPrefillFile_content_def copy_from_0
      HasSuffix_NL)

text \<open>
  Claim C9, amended.  For a registered session, a write of the bytes \<open>p\<close> to the
  prefill file stores \<open>p\<close> without its last byte if that is a newline, and \<open>p\<close>
  itself otherwise: nothing else is trimmed.  A read from offset 0 then returns
  the stored value, followed by one more newline exactly when the value is not
  empty and does not end in one already; for the empty value the read is at the
  end of data.  Writing \<^verbatim>\<open>Sure, here is\<close> followed by two spaces and then
  reading returns those bytes and a newline.
\<close>

theorem prefill_roundtrip:
  assumes "sessions sm i = Some s"
  shows "(let v = (if p \<noteq> [] \<and> last p = NL then butlast p else p);
              sm' = sm\<lparr>sessions := (sessions sm)(i \<mapsto> s\<lparr>prefill := v\<rparr>)\<rparr>
          in SessionPrefillFile_Write sm i p = (Inr (length p), sm')
           \<and> SessionPrefillFile_Read sm' i cap 0 =
               (if v = [] then Inl EOF
                else if HasSuffix v [NL] then Inr (take cap v)
                else Inr (take cap (v @ [NL]))))
       \<and> SessionPrefillFile_Read (snd (SessionPrefillFile_Write sm i ''Sure, here is  '')) i cap 0 =
           Inr (take cap (''Sure, here is  '' @ [NL]))"
proof -
  have w: "SessionPrefillFile_Write sm i q =
      (Inr (length q), sm\<lparr>sessions := (sessions sm)(i \<mapsto>
         s\<lparr>prefill := (if q \<noteq> [] \<and> last q = NL then butlast q else q)\<rparr>)\<rparr>)" for q
    using assms
    by (simp add: SessionPrefillFile_Write_def Get_def on_session_Some SetPrefill_def TrimSuffix_NL)
  have r: "SessionPrefillFile_Read (sm\<lparr>sessions := (sessions sm)(i \<mapsto> s\<lparr>prefill := v\<rparr>)\<rparr>) i cap 0 =
               (if v = [] then Inl EOF
                else if HasSuffix v [NL] then Inr (take cap v)
                else Inr (take cap (v @ [NL])))" for v
    by (simp add: SessionPrefillFile_Read_def Get_def SessionPrefillFile_content_def copy_from_0)
  have e: "SessionPrefillFile_Read (snd (SessionPrefillFile_Write sm i ''Sure, here is  '')) i cap 0 =
           Inr (take cap (''Sure, here is  '' @ [NL]))"
    by (simp add: w r HasSuffix_NL)
  show ?thesis
    unfolding Let_def using w [of p] r e by blast
qed

theorem prefill_roundtrip_witness:
  "sessions sm_one 0 = Some (NewSession 0 DefaultSessionDefaults)
   \<and> SessionPrefillFile_Write sm_one 0 (''  two'' @ [NL, NL]) =
       (Inr 7, sm_one\<lparr>sessions := (sessions sm_one)(0 \<mapsto>
          (NewSession 0 DefaultSessionDefaults)\<lparr>prefill := ''  two'' @ [NL]\<rparr>)\<rparr>)
   \<and> SessionPrefillFile_Read (sm_one\<lparr>sessions := (sessions sm_one)(0 \<mapsto>
          (NewSession 0 DefaultSessionDefaults)\<lparr>prefill := ''  two'' @ [NL]\<rparr>)\<rparr>) 0 64 0 =
       Inr (''  two'' @ [NL])
   \<and> SessionPrefillFile_Read (snd (SessionPrefillFile_Write sm_one 0 ''Sure, here is  '')) 0 64 0 =
       Inr (''Sure, here is  '' @ [NL])"
proof -
  note c = prefill_roundtrip [OF sessions_sm_one, where p = "''  two'' @ [NL, NL]" and cap = 64]
  from c have c1: "SessionPrefillFile_Write sm_one 0 (''  two'' @ [NL, NL]) =
       (Inr 7, sm_one\<lparr>sessions := (sessions sm_one)(0 \<mapsto>
          (NewSession 0 DefaultSessionDefaults)\<lparr>prefill := ''  two'' @ [NL]\<rparr>)\<rparr>)"
    by (simp add: Let_def)
  from c have c2: "SessionPrefillFile_Read (sm_one\<lparr>sessions := (sessions sm_one)(0 \<mapsto>
          (NewSession 0 DefaultSessionDefaults)\<lparr>prefill := ''  two'' @ [NL]\<rparr>)\<rparr>) 0 64 0 =
       Inr (''  two'' @ [NL])"
    by (simp add: Let_def HasSuffix_NL)
  from c have c3: "SessionPrefillFile_Read (snd (SessionPrefillFile_Write sm_one 0 ''Sure, here is  '')) 0 64 0 =
       Inr (''Sure, here is  '' @ [NL])"
    by simp
  show ?thesis using sessions_sm_one c1 c2 c3 by blast
qed

end
